theory Spec2Isabelle
  imports Complex_Main "HOL-Library.Sublist"
begin

section \<open>Training and evaluation orchestration of DD-Net-Pytorch/train.py\<close>

text \<open>
  The development follows \<^verbatim>\<open>train.py\<close>: the command line, the two loops \<^verbatim>\<open>train\<close> and
  \<^verbatim>\<open>test\<close>, the global \<^verbatim>\<open>history\<close> dictionary, the plateau scheduler that \<^verbatim>\<open>main\<close>
  configures, and the body of \<^verbatim>\<open>main\<close> with its timing loop.
  Losses, learning rates and accuracies are real numbers: Python's floats are idealised, so
  rounding, NaN and infinities are outside the model. The network, the optimizer and the
  criterion are library objects handed to the loops; they appear as uninterpreted functions
  collected in a record.
\<close>

subsection \<open>Exceptions and process outcomes\<close>

datatype error = ZeroDivisionError | ValueError | IndexError | CudaUnavailable

datatype outcome = Completed | Exited int | Raised error

subsection \<open>Command line (lines 102 to 129)\<close>

record args =
  batch_size :: int
  test_batch_size :: int
  epochs :: int
  lr :: real
  gamma :: real
  no_cuda :: bool
  dry_run :: bool
  log_interval :: int
  save_model :: bool
  dataset :: int
  model :: bool
  calc_time :: bool

text \<open>
  What the user typed: a value for each valued option that was given, and for each
  \<^verbatim>\<open>store_true\<close> flag whether it occurs on the command line.
\<close>

record cmdline =
  opt_batch_size :: "int option"
  opt_test_batch_size :: "int option"
  opt_epochs :: "int option"
  opt_lr :: "real option"
  opt_gamma :: "real option"
  flag_no_cuda :: bool
  flag_dry_run :: bool
  opt_log_interval :: "int option"
  flag_save_model :: bool
  opt_dataset :: "int option"
  flag_model :: bool
  flag_calc_time :: bool

definition store_true :: "bool \<Rightarrow> bool \<Rightarrow> bool" where
  \<comment> \<open>\<^verbatim>\<open>action='store_true', default=dflt\<close>: the flag sets True, its absence leaves the default.\<close>
  "store_true dflt given = (if given then True else dflt)"

definition with_default :: "'a \<Rightarrow> 'a option \<Rightarrow> 'a" where
  "with_default dflt v = (case v of None \<Rightarrow> dflt | Some x \<Rightarrow> x)"

definition parse_args :: "cmdline \<Rightarrow> int + args" where
  \<comment> \<open>\<^verbatim>\<open>--dataset\<close> is \<^verbatim>\<open>required=True\<close>: without it argparse exits with status 2.\<close>
  "parse_args cl =
     (case opt_dataset cl of
        None \<Rightarrow> Inl 2
      | Some d \<Rightarrow> Inr
          \<lparr>batch_size = with_default 64 (opt_batch_size cl),
           test_batch_size = with_default 1000 (opt_test_batch_size cl),
           epochs = with_default 199 (opt_epochs cl),
           lr = with_default (1 / 100) (opt_lr cl),
           gamma = with_default (1 / 2) (opt_gamma cl),
           no_cuda = store_true False (flag_no_cuda cl),
           dry_run = store_true False (flag_dry_run cl),
           log_interval = with_default 2 (opt_log_interval cl),
           save_model = store_true True (flag_save_model cl),
           dataset = d,
           model = store_true False (flag_model cl),
           calc_time = store_true False (flag_calc_time cl)\<rparr>)"

subsection \<open>The history dictionary (lines 31 to 35)\<close>

record history =
  train_loss :: "real list"
  test_loss :: "real list"
  test_acc :: "real list"

definition history_empty :: history where
  "history_empty = \<lparr>train_loss = [], test_loss = [], test_acc = []\<rparr>"

subsection \<open>Examples, loaders and the network\<close>

type_synonym ('a, 'b) example = "'a \<times> 'b \<times> int"

text \<open>
  A loader as the loops use it: \<^verbatim>\<open>loader.dataset\<close>, whose length is taken, and the batches
  that iterating it yields.
\<close>

record 'e loader =
  dataset :: "'e list"
  batches :: "'e list list"

function chunks :: "nat \<Rightarrow> 'e list \<Rightarrow> 'e list list" where
  "chunks n xs = (if n = 0 \<or> xs = [] then [] else take n xs # chunks n (drop n xs))"
  by pat_completeness auto
termination
  by (relation "measure (\<lambda>(n, xs). length xs)") auto

declare chunks.simps [simp del]

definition DataLoader :: "int \<Rightarrow> 'e list \<Rightarrow> error + 'e loader" where
  \<comment> \<open>\<^verbatim>\<open>torch.utils.data.DataLoader(ds, batch_size=bs)\<close> without shuffling: a batch size that
      is not positive is refused; the examples come in order and the last batch may be short.\<close>
  "DataLoader bs ds =
     (if bs \<le> 0 then Inl ValueError
      else Inr \<lparr>dataset = ds, batches = chunks (nat bs) ds\<rparr>)"

definition epoch_loader ::
  "int \<Rightarrow> bool \<Rightarrow> (int \<Rightarrow> 'e list \<Rightarrow> 'e list) \<Rightarrow> 'e list \<Rightarrow> int \<Rightarrow> 'e loader" where
  \<comment> \<open>what iterating the training loader yields in one epoch: with \<^verbatim>\<open>shuffle\<close> (lines 150 to
      157) the seeded generator draws a new order each epoch\<close>
  "epoch_loader bs shuffled perm ds epoch =
     \<lparr>dataset = ds, batches = chunks (nat bs) (if shuffled then perm epoch ds else ds)\<rparr>"

text \<open>
  The objects passed to the loops. \<open>model_train\<close> is the forward pass on a batch in training
  mode, \<open>model_eval\<close> the score vector of one example in evaluation mode, \<open>criterion\<close> the
  scalar loss handed to \<^verbatim>\<open>train\<close>, \<open>example_loss\<close> the term one example contributes to
  \<^verbatim>\<open>CrossEntropyLoss(reduction='sum')\<close>, and \<open>optimizer_step\<close> the parameters after
  \<^verbatim>\<open>zero_grad\<close>, \<^verbatim>\<open>backward\<close> and \<^verbatim>\<open>step\<close> on a batch at a learning rate.
\<close>

record ('p, 'a, 'b) net =
  model_train :: "'p \<Rightarrow> ('a \<times> 'b) list \<Rightarrow> real list list"
  model_eval :: "'p \<Rightarrow> 'a \<Rightarrow> 'b \<Rightarrow> real list"
  criterion :: "real list list \<Rightarrow> int list \<Rightarrow> real"
  example_loss :: "real list \<Rightarrow> int \<Rightarrow> real"
  optimizer_step :: "real \<Rightarrow> 'p \<Rightarrow> ('a, 'b) example list \<Rightarrow> 'p"

subsection \<open>The training loop (lines 37 to 71)\<close>

datatype train_event =
    ModelTrainMode
  | ToDevice nat
  | ZeroGrad nat
  | Forward nat
  | ComputeLoss nat
  | Backward nat
  | OptimizerStep nat
  | LogProgress nat
  | HistoryAppend

definition batch_inputs :: "('a, 'b) example list \<Rightarrow> ('a \<times> 'b) list" where
  "batch_inputs b = map (\<lambda>(data1, data2, target). (data1, data2)) b"

definition batch_targets :: "('a, 'b) example list \<Rightarrow> int list" where
  "batch_targets b = map (\<lambda>(data1, data2, target). target) b"

definition batch_loss :: "('p, 'a, 'b) net \<Rightarrow> 'p \<Rightarrow> ('a, 'b) example list \<Rightarrow> real" where
  \<comment> \<open>lines 57 and 58: \<^verbatim>\<open>criterion(model(M, P), target)\<close>\<close>
  "batch_loss nt p b = criterion nt (model_train nt p (batch_inputs b)) (batch_targets b)"

definition batch_ops :: "nat \<Rightarrow> train_event list" where
  \<comment> \<open>lines 50 to 61, in statement order, for the batch with index \<open>i\<close>\<close>
  "batch_ops i = [ToDevice i, ZeroGrad i, Forward i, ComputeLoss i, Backward i, OptimizerStep i]"

fun train_loop ::
  "args \<Rightarrow> ('p, 'a, 'b) net \<Rightarrow> real \<Rightarrow> nat \<Rightarrow> ('a, 'b) example list list \<Rightarrow>
   'p \<times> real \<times> train_event list \<Rightarrow> error + 'p \<times> real \<times> train_event list" where
  "train_loop a nt r batch_idx [] st = Inr st"
| "train_loop a nt r batch_idx (b # bs) (p, loss_sum, tr) =
     (let loss = batch_loss nt p b;
          loss_sum' = loss_sum + loss;
          p' = optimizer_step nt r p b;
          tr' = tr @ batch_ops batch_idx
      in if log_interval a = 0 then Inl ZeroDivisionError
         else if int batch_idx mod log_interval a = 0
         then (if dry_run a then Inr (p', loss_sum', tr' @ [LogProgress batch_idx])
               else train_loop a nt r (Suc batch_idx) bs (p', loss_sum', tr' @ [LogProgress batch_idx]))
         else train_loop a nt r (Suc batch_idx) bs (p', loss_sum', tr'))"

definition train ::
  "args \<Rightarrow> ('p, 'a, 'b) net \<Rightarrow> real \<Rightarrow> ('a, 'b) example loader \<Rightarrow> 'p \<times> history \<Rightarrow>
   error + 'p \<times> history \<times> real \<times> train_event list" where
  \<comment> \<open>returns the parameters, the history, the value returned by \<^verbatim>\<open>train\<close> and the
      operations performed\<close>
  "train a nt r train_loader st =
     (case st of (p, h) \<Rightarrow>
        (case train_loop a nt r 0 (batches train_loader) (p, 0, [ModelTrainMode]) of
           Inl e \<Rightarrow> Inl e
         | Inr (p', loss_sum, tr) \<Rightarrow>
             Inr (p', h\<lparr>train_loss := train_loss h @ [loss_sum]\<rparr>, loss_sum, tr @ [HistoryAppend])))"

text \<open>What a pass over the batches computes, written without the loop's bookkeeping.\<close>

fun params_after :: "('p, 'a, 'b) net \<Rightarrow> real \<Rightarrow> 'p \<Rightarrow> ('a, 'b) example list list \<Rightarrow> 'p" where
  "params_after nt r p [] = p"
| "params_after nt r p (b # bs) = params_after nt r (optimizer_step nt r p b) bs"

fun batch_losses :: "('p, 'a, 'b) net \<Rightarrow> real \<Rightarrow> 'p \<Rightarrow> ('a, 'b) example list list \<Rightarrow> real list" where
  "batch_losses nt r p [] = []"
| "batch_losses nt r p (b # bs) = batch_loss nt p b # batch_losses nt r (optimizer_step nt r p b) bs"

definition log_ops :: "args \<Rightarrow> nat \<Rightarrow> train_event list" where
  "log_ops a i = (if int i mod log_interval a = 0 then [LogProgress i] else [])"

fun is_optimizer_step :: "train_event \<Rightarrow> bool" where
  "is_optimizer_step (OptimizerStep i) = True"
| "is_optimizer_step e = False"

subsection \<open>The evaluation loop (lines 73 to 98)\<close>

fun argmax_acc :: "real \<Rightarrow> nat \<Rightarrow> nat \<Rightarrow> real list \<Rightarrow> nat" where
  "argmax_acc best besti i [] = besti"
| "argmax_acc best besti i (x # xs) =
     (if best < x then argmax_acc x i (Suc i) xs else argmax_acc best besti (Suc i) xs)"

definition argmax :: "real list \<Rightarrow> nat option" where
  \<comment> \<open>\<^verbatim>\<open>output.argmax(dim=1)\<close> on one row: the first index of the largest score; a row
      without classes has none.\<close>
  "argmax scores = (case scores of [] \<Rightarrow> None | x # xs \<Rightarrow> Some (argmax_acc x 0 1 xs))"

definition is_correct :: "('p, 'a, 'b) net \<Rightarrow> 'p \<Rightarrow> ('a, 'b) example \<Rightarrow> bool" where
  "is_correct nt p e =
     (case e of (data1, data2, target) \<Rightarrow>
        (case argmax (model_eval nt p data1 data2) of
           None \<Rightarrow> False
         | Some k \<Rightarrow> int k = target))"

definition loss_of :: "('p, 'a, 'b) net \<Rightarrow> 'p \<Rightarrow> ('a, 'b) example \<Rightarrow> real" where
  "loss_of nt p e =
     (case e of (data1, data2, target) \<Rightarrow> example_loss nt (model_eval nt p data1 data2) target)"

fun eval_batch ::
  "('p, 'a, 'b) net \<Rightarrow> 'p \<Rightarrow> ('a, 'b) example list \<Rightarrow> error + real \<times> nat" where
  \<comment> \<open>lines 81 to 89 on one batch: the summed loss and the number of correct predictions.
      The sum is the exact sum of the examples' terms and each example is scored on its own:
      the rounding of the batch sum in single precision and any dependence of the scores on
      the batch are outside the model.\<close>
  "eval_batch nt p [] = Inr (0, 0)"
| "eval_batch nt p (e # es) =
     (case argmax (model_eval nt p (fst e) (fst (snd e))) of
        None \<Rightarrow> Inl IndexError
      | Some k \<Rightarrow>
          (case eval_batch nt p es of
             Inl err \<Rightarrow> Inl err
           | Inr (l, c) \<Rightarrow>
               Inr (loss_of nt p e + l, (if int k = snd (snd e) then 1 else 0) + c)))"

fun test_loop ::
  "('p, 'a, 'b) net \<Rightarrow> 'p \<Rightarrow> ('a, 'b) example list list \<Rightarrow> real \<times> nat \<Rightarrow> error + real \<times> nat" where
  "test_loop nt p [] st = Inr st"
| "test_loop nt p (b # bs) (loss_sum, correct) =
     (case eval_batch nt p b of
        Inl err \<Rightarrow> Inl err
      | Inr (l, c) \<Rightarrow> test_loop nt p bs (loss_sum + l, correct + c))"

definition test ::
  "('p, 'a, 'b) net \<Rightarrow> 'p \<Rightarrow> ('a, 'b) example loader \<Rightarrow> history \<Rightarrow> error + history" where
  "test nt p test_loader h =
     (case test_loop nt p (batches test_loader) (0, 0) of
        Inl err \<Rightarrow> Inl err
      | Inr (loss_sum, correct) \<Rightarrow>
          if length (dataset test_loader) = 0 then Inl ZeroDivisionError
          else Inr (h\<lparr>test_loss := test_loss h @ [loss_sum / real (length (dataset test_loader))],
                      test_acc := test_acc h @ [real correct / real (length (dataset test_loader))]\<rparr>))"

subsection \<open>The plateau scheduler (lines 238, 239 and 244)\<close>

text \<open>
  Modelled from the spec: the class \<^verbatim>\<open>ReduceLROnPlateau\<close> is imported from
  \<^verbatim>\<open>torch.optim.lr_scheduler\<close>; \<^verbatim>\<open>train.py\<close> only constructs it and calls \<^verbatim>\<open>step\<close>. The
  definitions below follow the state machine of section 4.3 of the specification, with the
  state of its section 3. The scheduler is in cooldown while \<open>cooldown_remaining\<close> is positive
  and tracking otherwise, so the fractional cooldown of the source lasts one call. How much
  better than the best a metric must be is the library's default and enters as the
  parameter \<open>threshold\<close>. The specification does not describe the constructor; the one check
  of its arguments that a command line can fail, a factor of 1.0 or more, is the library's and
  is part of \<open>ReduceLROnPlateau\<close> below.
\<close>

record sched_config =
  factor :: real
  patience :: nat
  cooldown :: real
  min_lr :: real
  threshold :: real

record sched_state =
  current_lr :: real
  best_loss_so_far :: "real option"
  epochs_since_improvement :: nat
  cooldown_remaining :: real

definition in_cooldown :: "sched_state \<Rightarrow> bool" where
  \<comment> \<open>Modelled from the spec: the state \<^verbatim>\<open>cooldown\<close> of \<^verbatim>\<open>ReduceLROnPlateau\<close>, as opposed to
      \<^verbatim>\<open>tracking\<close>\<close>
  "in_cooldown s = (0 < cooldown_remaining s)"

definition improves :: "sched_config \<Rightarrow> real \<Rightarrow> real option \<Rightarrow> bool" where
  \<comment> \<open>Modelled from the spec: \<^verbatim>\<open>ReduceLROnPlateau\<close>'s test that a metric improves on the best
      by more than the threshold; with no best yet the first metric is an improvement\<close>
  "improves cfg m best = (case best of None \<Rightarrow> True | Some b \<Rightarrow> threshold cfg < b - m)"

definition observe :: "sched_config \<Rightarrow> sched_state \<Rightarrow> real \<Rightarrow> sched_state" where
  \<comment> \<open>Modelled from the spec: the bookkeeping of \<^verbatim>\<open>ReduceLROnPlateau.step\<close> in the tracking
      state: a new best resets the count of epochs without improvement, anything else adds
      one to it\<close>
  "observe cfg s m =
     (if improves cfg m (best_loss_so_far s)
      then s\<lparr>best_loss_so_far := Some m, epochs_since_improvement := 0\<rparr>
      else s\<lparr>epochs_since_improvement := epochs_since_improvement s + 1\<rparr>)"

definition reduce_lr :: "sched_config \<Rightarrow> real \<Rightarrow> real" where
  \<comment> \<open>Modelled from the spec: the reduction of \<^verbatim>\<open>ReduceLROnPlateau\<close>, the rate times the
      factor, floored at the minimum rate\<close>
  "reduce_lr cfg r = max (r * factor cfg) (min_lr cfg)"

definition reduction_triggered :: "sched_config \<Rightarrow> sched_state \<Rightarrow> real \<Rightarrow> bool" where
  \<comment> \<open>Modelled from the spec: when \<^verbatim>\<open>ReduceLROnPlateau.step\<close> reduces, in the tracking state
      with more epochs without improvement than the patience\<close>
  "reduction_triggered cfg s m =
     (\<not> in_cooldown s \<and> patience cfg < epochs_since_improvement (observe cfg s m))"

definition sched_step :: "sched_config \<Rightarrow> sched_state \<Rightarrow> real \<Rightarrow> sched_state" where
  \<comment> \<open>Modelled from the spec: \<^verbatim>\<open>ReduceLROnPlateau.step(metric)\<close> (line 244). In cooldown the
      call only counts the cooldown down; in tracking it does the bookkeeping and, on a
      plateau, reduces the rate, resets the count and enters cooldown.\<close>
  "sched_step cfg s m =
     (if in_cooldown s then s\<lparr>cooldown_remaining := cooldown_remaining s - 1\<rparr>
      else if reduction_triggered cfg s m
      then (observe cfg s m)\<lparr>current_lr := reduce_lr cfg (current_lr s),
                              epochs_since_improvement := 0,
                              cooldown_remaining := cooldown cfg\<rparr>
      else observe cfg s m)"

fun sched_run :: "sched_config \<Rightarrow> sched_state \<Rightarrow> real list \<Rightarrow> sched_state" where
  "sched_run cfg s [] = s"
| "sched_run cfg s (m # ms) = sched_run cfg (sched_step cfg s m) ms"

fun lr_trace :: "sched_config \<Rightarrow> sched_state \<Rightarrow> real list \<Rightarrow> real list" where
  \<comment> \<open>the learning rate before the first metric and after each one\<close>
  "lr_trace cfg s [] = [current_lr s]"
| "lr_trace cfg s (m # ms) = current_lr s # lr_trace cfg (sched_step cfg s m) ms"

fun count_reductions :: "sched_config \<Rightarrow> sched_state \<Rightarrow> real list \<Rightarrow> nat" where
  "count_reductions cfg s [] = 0"
| "count_reductions cfg s (m # ms) =
     (if reduction_triggered cfg s m then 1 else 0) + count_reductions cfg (sched_step cfg s m) ms"

definition scheduler_config :: "real \<Rightarrow> real \<Rightarrow> sched_config" where
  \<comment> \<open>line 239: \<^verbatim>\<open>factor=args.gamma, patience=5, cooldown=0.5, min_lr=5e-6\<close>\<close>
  "scheduler_config g th =
     \<lparr>factor = g, patience = 5, cooldown = 1 / 2, min_lr = 5 / 10 ^ 6, threshold = th\<rparr>"

definition scheduler_init :: "real \<Rightarrow> sched_state" where
  \<comment> \<open>the optimizer's rate (line 235), nothing observed yet\<close>
  "scheduler_init r =
     \<lparr>current_lr = r, best_loss_so_far = None, epochs_since_improvement = 0,
      cooldown_remaining = 0\<rparr>"

definition Adam :: "real \<Rightarrow> error + real" where
  \<comment> \<open>line 235, \<^verbatim>\<open>optim.Adam(model.parameters(), lr=args.lr, ...)\<close>: the library refuses a
      negative learning rate with a ValueError; the optimizer is represented by its rate\<close>
  "Adam r = (if r < 0 then Inl ValueError else Inr r)"

definition ReduceLROnPlateau :: "real \<Rightarrow> real \<Rightarrow> real \<Rightarrow> error + sched_config \<times> sched_state" where
  \<comment> \<open>Modelled from the spec: the scheduler of lines 238 and 239 on an optimizer of rate
      \<open>r\<close>, in its initial state. The library's constructor refuses a factor of 1.0 or more
      with a ValueError.\<close>
  "ReduceLROnPlateau g th r =
     (if 1 \<le> g then Inl ValueError else Inr (scheduler_config g th, scheduler_init r))"

subsection \<open>The program (lines 28 to 30 and 100 to 329)\<close>

record sys =
  cuda_available :: bool
  timestamp :: int
  sep :: string

text \<open>
  What the imported modules provide: the network with its freshly initialised parameters, the
  examples generated for a dataset selector, the order the seeded generator draws in an
  epoch, and the scheduler's threshold.
\<close>

record ('p, 'a, 'b) world =
  network :: "('p, 'a, 'b) net"
  initial_params :: 'p
  train_examples :: "int \<Rightarrow> ('a, 'b) example list"
  test_examples :: "int \<Rightarrow> ('a, 'b) example list"
  shuffle :: "int \<Rightarrow> ('a, 'b) example list \<Rightarrow> ('a, 'b) example list"
  plateau_threshold :: real

datatype event =
    MakeDir string
  | LoggingConfig string
  | LogInfo
  | Print string
  | CudaAllocate
  | CudaEmptyCache
  | SeedGenerator int
  | LoadData int
  | BuildModel
  | TrainEpoch int
  | TestEpoch int
  | SchedulerStep int
  | SaveFigure string
  | SaveModel string
  | TimingHeader string
  | MoveToDevice string
  | WarmUp string
  | Synchronize
  | Invoke string nat
  | LogTiming string
  | RestoreModel

function str_nat :: "nat \<Rightarrow> string" where
  "str_nat n =
     (if n < 10 then [''0123456789'' ! n]
      else str_nat (n div 10) @ [''0123456789'' ! (n mod 10)])"
  by pat_completeness auto
termination
  by (relation "measure id") auto

declare str_nat.simps [simp del]

definition str_int :: "int \<Rightarrow> string" where
  "str_int i = (if i < 0 then ''-'' @ str_nat (nat (- i)) else str_nat (nat i))"

definition backslash :: char where
  "backslash = CHR 0x5C"

definition savedir :: "sys \<Rightarrow> string" where
  \<comment> \<open>line 28: \<^verbatim>\<open>Path('experiments') / Path(str(int(time.time())))\<close>\<close>
  "savedir sy = ''experiments'' @ sep sy @ str_int (timestamp sy)"

definition weights_dir :: string where
  \<comment> \<open>line 276\<close>
  "weights_dir =
     ''D:'' @ [backslash] @ ''NCKHSV.2024-2025'' @ [backslash] @ ''MultiMediapipe'' @
     [backslash] @ ''DD-Net-Pytorch'' @ [backslash] @ ''weights''"

definition dataset_name :: "args \<Rightarrow> string" where
  \<comment> \<open>line 280\<close>
  "dataset_name a =
     (if args.dataset a = 0 then ''JHMDB''
      else if args.dataset a = 1 then ''SHREC_coarse'' else ''SHREC_fine'')"

definition filename :: "args \<Rightarrow> string" where
  \<comment> \<open>line 283\<close>
  "filename a = dataset_name a @ ''_latest_epoch_'' @ str_int (epochs a) @ ''.pt''"

definition save_path :: "sys \<Rightarrow> args \<Rightarrow> string" where
  \<comment> \<open>line 286: \<^verbatim>\<open>os.path.join(weights_dir, filename)\<close>\<close>
  "save_path sy a = weights_dir @ sep sy @ filename a"

definition module_level :: "sys \<Rightarrow> event list" where
  \<comment> \<open>lines 28 to 30, executed when the module is loaded\<close>
  "module_level sy = [MakeDir (savedir sy), LoggingConfig (savedir sy @ sep sy @ ''train.log'')]"

definition cuda_probe :: "sys \<Rightarrow> event list" where
  \<comment> \<open>lines 135 to 141\<close>
  "cuda_probe sy =
     (if cuda_available sy
      then [CudaAllocate, Print ''CUDA initialization test'', CudaEmptyCache]
      else [])"

definition loader_kwargs :: "sys \<Rightarrow> args \<Rightarrow> event list" where
  \<comment> \<open>lines 149 to 157\<close>
  "loader_kwargs sy a = (if \<not> no_cuda a \<and> cuda_available sy then [SeedGenerator 42] else [])"

fun run_epochs ::
  "args \<Rightarrow> ('p, 'a, 'b) net \<Rightarrow> sched_config \<Rightarrow> (int \<Rightarrow> ('a, 'b) example loader) \<Rightarrow>
   ('a, 'b) example loader \<Rightarrow> int list \<Rightarrow> ('p \<times> sched_state \<times> history) \<times> event list \<Rightarrow>
   (error + 'p \<times> sched_state \<times> history) \<times> event list" where
  \<comment> \<open>lines 240 to 244\<close>
  "run_epochs a nt cfg train_loader test_loader [] (st, ev) = (Inr st, ev)"
| "run_epochs a nt cfg train_loader test_loader (epoch # rest) ((p, s, h), ev) =
     (case train a nt (current_lr s) (train_loader epoch) (p, h) of
        Inl e \<Rightarrow> (Inl e, ev @ [TrainEpoch epoch])
      | Inr (p', h', loss, ops) \<Rightarrow>
          (case test nt p' test_loader h' of
             Inl e \<Rightarrow> (Inl e, ev @ [TrainEpoch epoch, TestEpoch epoch])
           | Inr h'' \<Rightarrow>
               run_epochs a nt cfg train_loader test_loader rest
                 ((p', sched_step cfg s loss, h''),
                  ev @ [TrainEpoch epoch, TestEpoch epoch, SchedulerStep epoch])))"

definition plot_stage :: "sys \<Rightarrow> history \<Rightarrow> error + event list" where
  \<comment> \<open>lines 246 to 272; \<^verbatim>\<open>np.argmax\<close> of an empty accuracy series raises\<close>
  "plot_stage sy h =
     (if test_acc h = [] then Inl ValueError
      else Inr [SaveFigure (savedir sy @ sep sy @ ''perf.png'')])"

definition save_stage :: "sys \<Rightarrow> args \<Rightarrow> event list" where
  \<comment> \<open>lines 274 to 288\<close>
  "save_stage sy a =
     (if save_model a
      then [MakeDir weights_dir, SaveModel (save_path sy a),
            Print (''Latest model saved to '' @ save_path sy a)]
      else [])"

definition sync :: "string \<Rightarrow> event list" where
  "sync dev = (if dev = ''cuda'' then [Synchronize] else [])"

definition time_device :: "sys \<Rightarrow> nat \<Rightarrow> string \<Rightarrow> event list \<times> error option" where
  \<comment> \<open>lines 294 to 329 for one entry of \<^verbatim>\<open>device_list\<close>, on \<open>n\<close> test examples; moving a
      tensor to a device that is not there raises (line 300)\<close>
  "time_device sy n dev =
     (if dev = ''cuda'' \<and> \<not> cuda_available sy then ([TimingHeader dev], Some CudaUnavailable)
      else
        (let ev = [TimingHeader dev, MoveToDevice dev, WarmUp dev] @ sync dev @
                  concat (map (\<lambda>i. Invoke dev i # sync dev) [0..<n])
         in if n = 0 then (ev, Some ZeroDivisionError)
            else (ev @ [LogTiming dev, RestoreModel], None)))"

fun timing_loop :: "sys \<Rightarrow> nat \<Rightarrow> string list \<Rightarrow> event list \<times> error option" where
  "timing_loop sy n [] = ([], None)"
| "timing_loop sy n (dev # rest) =
     (case time_device sy n dev of
        (ev, Some e) \<Rightarrow> (ev, Some e)
      | (ev, None) \<Rightarrow> (case timing_loop sy n rest of (ev', r) \<Rightarrow> (ev @ ev', r)))"

definition device_list :: "string list" where
  \<comment> \<open>line 291\<close>
  "device_list = [''cpu'', ''cuda'']"

definition after_training :: "sys \<Rightarrow> args \<Rightarrow> nat \<Rightarrow> history \<Rightarrow> event list \<times> outcome" where
  \<comment> \<open>lines 246 to 329, with \<open>n\<close> the number of test examples: the plot, the checkpoint and
      the timing loop\<close>
  "after_training sy a n h =
     (case plot_stage sy h of
        Inl e \<Rightarrow> ([], Raised e)
      | Inr pe \<Rightarrow>
          (let ev = pe @ save_stage sy a
           in if calc_time a
              then (case timing_loop sy n device_list of
                      (te, None) \<Rightarrow> (ev @ te, Completed)
                    | (te, Some e) \<Rightarrow> (ev @ te, Raised e))
              else (ev, Completed)))"

definition epoch_events :: "int \<Rightarrow> event list" where
  "epoch_events epoch = [TrainEpoch epoch, TestEpoch epoch, SchedulerStep epoch]"

definition training_run :: "sys \<Rightarrow> ('p, 'a, 'b) world \<Rightarrow> args \<Rightarrow> event list \<times> outcome" where
  \<comment> \<open>lines 182 to 329, for a supported dataset selector: the loaders (lines 195 and 198),
      the model (line 222), the optimizer (line 235), the scheduler (line 238), the epochs and
      what follows them\<close>
  "training_run sy w a =
     (let d = args.dataset a;
          use_cuda = (\<not> no_cuda a \<and> cuda_available sy);
          ev0 = [LoadData d]
      in if batch_size a \<le> 0 then (ev0, Raised ValueError)
         else
           (case DataLoader (test_batch_size a) (test_examples w d) of
              Inl e \<Rightarrow> (ev0, Raised e)
            | Inr test_loader \<Rightarrow>
                (case Adam (lr a) of
                   Inl e \<Rightarrow> (ev0 @ [BuildModel], Raised e)
                 | Inr r \<Rightarrow>
                     (case ReduceLROnPlateau (gamma a) (plateau_threshold w) r of
                        Inl e \<Rightarrow> (ev0 @ [BuildModel], Raised e)
                      | Inr (cfg, s0) \<Rightarrow>
                          (case run_epochs a (network w) cfg
                                  (epoch_loader (batch_size a) use_cuda (shuffle w)
                                     (train_examples w d))
                                  test_loader [1..epochs a]
                                  ((initial_params w, s0, history_empty), ev0 @ [BuildModel]) of
                             (Inl e, ev) \<Rightarrow> (ev, Raised e)
                           | (Inr (p, s, h), ev) \<Rightarrow>
                               (case after_training sy a (length (test_examples w d)) h of
                                  (ev', out) \<Rightarrow> (ev @ ev', out)))))))"

definition main :: "sys \<Rightarrow> ('p, 'a, 'b) world \<Rightarrow> cmdline \<Rightarrow> event list \<times> outcome" where
  "main sy w cl =
     (case parse_args cl of
        Inl code \<Rightarrow> (module_level sy, Exited code)
      | Inr a \<Rightarrow>
          (let ev = module_level sy @ [LogInfo] @ cuda_probe sy @ loader_kwargs sy a
           in if args.dataset a = 0 \<or> args.dataset a = 1 \<or> args.dataset a = 2
              then (case training_run sy w a of (ev', out) \<Rightarrow> (ev @ ev', out))
              else (ev @ [Print ''Unsupported dataset!''], Exited 1)))"

fun starts_work :: "event \<Rightarrow> bool" where
  \<comment> \<open>the events of lines 182 to 244: data loading, model construction and the epoch loop\<close>
  "starts_work (LoadData d) = True"
| "starts_work BuildModel = True"
| "starts_work (TrainEpoch e) = True"
| "starts_work (TestEpoch e) = True"
| "starts_work (SchedulerStep e) = True"
| "starts_work e = False"

definition has_scores :: "('p, 'a, 'b) net \<Rightarrow> 'p \<Rightarrow> ('a, 'b) example \<Rightarrow> bool" where
  \<comment> \<open>the network gives the example a score for at least one class\<close>
  "has_scores nt p e = (model_eval nt p (fst e) (fst (snd e)) \<noteq> [])"

subsection \<open>A two-class network for concrete runs\<close>

text \<open>
  A stand-in for the network: both inputs are single numbers and are themselves the two class
  scores; the training criterion adds up the targets; an optimizer step subtracts the
  learning rate from the single parameter.
\<close>

fun pair_scores :: "real \<times> real \<Rightarrow> real list" where
  "pair_scores (x, y) = [x, y]"

definition toy_model_train :: "real \<Rightarrow> (real \<times> real) list \<Rightarrow> real list list" where
  "toy_model_train p xs = map pair_scores xs"

definition toy_model_eval :: "real \<Rightarrow> real \<Rightarrow> real \<Rightarrow> real list" where
  "toy_model_eval p x y = [x, y]"

definition toy_criterion :: "real list list \<Rightarrow> int list \<Rightarrow> real" where
  "toy_criterion out targets = real_of_int (sum_list targets)"

definition toy_example_loss :: "real list \<Rightarrow> int \<Rightarrow> real" where
  "toy_example_loss scores target = sum_list scores"

definition toy_optimizer_step :: "real \<Rightarrow> real \<Rightarrow> (real, real) example list \<Rightarrow> real" where
  "toy_optimizer_step r p b = p - r"

definition toy_net :: "(real, real, real) net" where
  "toy_net =
     \<lparr>model_train = toy_model_train, model_eval = toy_model_eval, criterion = toy_criterion,
      example_loss = toy_example_loss, optimizer_step = toy_optimizer_step\<rparr>"

fun toy_examples :: "int \<Rightarrow> (real, real) example list" where
  "toy_examples d = [(1, 0, 0), (0, 1, 1), (1, 0, 1)]"

fun toy_shuffle :: "int \<Rightarrow> (real, real) example list \<Rightarrow> (real, real) example list" where
  "toy_shuffle epoch ds = rev ds"

definition toy_world :: "(real, real, real) world" where
  "toy_world =
     \<lparr>network = toy_net, initial_params = 0, train_examples = toy_examples,
      test_examples = toy_examples, shuffle = toy_shuffle, plateau_threshold = 1 / 10 ^ 4\<rparr>"

section \<open>Properties of the training loop\<close>

lemma train_loop_full:
  assumes "\<not> dry_run a" and "log_interval a \<noteq> 0"
  shows "train_loop a nt r i bs (p, s, tr) =
           Inr (params_after nt r p bs, s + sum_list (batch_losses nt r p bs),
                tr @ concat (map (\<lambda>j. batch_ops j @ log_ops a j) [i..<i + length bs]))"
proof (induction bs arbitrary: i p s tr)
  case Nil
  then show ?case by simp
next
  case (Cons b bs)
  have e: "i + length (b # bs) = Suc i + length bs" by simp
  have upt: "[i..<i + length (b # bs)] = i # [Suc i..<Suc i + length bs]"
    unfolding e by (rule upt_conv_Cons) simp
  show ?case
    unfolding upt using assms by (simp add: Let_def Cons.IH log_ops_def add.assoc)
qed

lemma optimizer_steps_of_pass:
  "filter is_optimizer_step (concat (map (\<lambda>j. batch_ops j @ log_ops a j) js)) =
     map OptimizerStep js"
  by (induction js) (simp_all add: batch_ops_def log_ops_def)

text \<open>
  C3, as amended. With \<^verbatim>\<open>dry_run\<close> off and a log interval other than zero, one call of
  \<^verbatim>\<open>train\<close> performs for every batch of the loader, in order, the device transfer, the
  gradient reset, the forward pass, the loss computation, the backward pass and one optimizer
  step (and a progress record where the batch index is a multiple of the interval), appends
  to the history, and returns the sum of the batch losses, each computed under the parameters
  the earlier steps left. The optimizer steps performed are exactly one per batch index.
\<close>

theorem train_processes_every_batch:
  assumes "\<not> dry_run a" and "log_interval a \<noteq> 0"
  shows "train a nt r ld (p, h) =
           Inr (params_after nt r p (batches ld),
                h\<lparr>train_loss := train_loss h @ [sum_list (batch_losses nt r p (batches ld))]\<rparr>,
                sum_list (batch_losses nt r p (batches ld)),
                ModelTrainMode #
                  concat (map (\<lambda>j. batch_ops j @ log_ops a j) [0..<length (batches ld)]) @
                  [HistoryAppend]) \<and>
         filter is_optimizer_step
           (ModelTrainMode #
              concat (map (\<lambda>j. batch_ops j @ log_ops a j) [0..<length (batches ld)]) @
              [HistoryAppend]) = map OptimizerStep [0..<length (batches ld)]"
  using train_loop_full [OF assms, of nt r 0 "batches ld" p 0 "[ModelTrainMode]"]
  by (simp add: train_def optimizer_steps_of_pass)

theorem train_processes_every_batch_witness:
  "train \<lparr>batch_size = 64, test_batch_size = 1000, epochs = 199, lr = 1 / 100, gamma = 1 / 2,
          no_cuda = False, dry_run = False, log_interval = 2, save_model = True,
          args.dataset = 0, model = False, calc_time = False\<rparr>
     toy_net (1 / 100) \<lparr>dataset = [(0, 0, 1), (0, 0, 2)], batches = [[(0, 0, 1)], [(0, 0, 2)]]\<rparr>
     (0, history_empty) =
   Inr (- (1 / 50), \<lparr>train_loss = [3], test_loss = [], test_acc = []\<rparr>, 3,
        [ModelTrainMode,
         ToDevice 0, ZeroGrad 0, Forward 0, ComputeLoss 0, Backward 0, OptimizerStep 0,
         LogProgress 0,
         ToDevice 1, ZeroGrad 1, Forward 1, ComputeLoss 1, Backward 1, OptimizerStep 1,
         HistoryAppend])"
proof -
  let ?a = "\<lparr>batch_size = 64, test_batch_size = 1000, epochs = 199, lr = 1 / 100, gamma = 1 / 2,
          no_cuda = False, dry_run = False, log_interval = 2, save_model = True,
          args.dataset = 0, model = False, calc_time = False\<rparr>"
  have h1: "\<not> dry_run ?a" and h2: "log_interval ?a \<noteq> 0" by simp_all
  have u: "[0..<2] = [0, 1]" by (simp add: upt_conv_Cons)
  from train_processes_every_batch [OF h1 h2, of toy_net "1 / 100"
      "\<lparr>dataset = [(0, 0, 1), (0, 0, 2)], batches = [[(0, 0, 1)], [(0, 0, 2)]]\<rparr>" 0 history_empty]
  show ?thesis
    by (simp add: u batch_ops_def log_ops_def batch_loss_def batch_inputs_def batch_targets_def
        toy_net_def toy_criterion_def toy_optimizer_step_def history_empty_def)
qed

text \<open>
  C3 as stated fails under \<^verbatim>\<open>--dry-run\<close>: of two batches with losses 1 and 2 only the first
  is processed, and the value returned is 1, not the sum 3 over the pass.
\<close>

theorem train_dry_run_counterexample:
  "train \<lparr>batch_size = 64, test_batch_size = 1000, epochs = 199, lr = 1 / 100, gamma = 1 / 2,
          no_cuda = False, dry_run = True, log_interval = 2, save_model = True,
          args.dataset = 0, model = False, calc_time = False\<rparr>
     toy_net (1 / 100) \<lparr>dataset = [(0, 0, 1), (0, 0, 2)], batches = [[(0, 0, 1)], [(0, 0, 2)]]\<rparr>
     (0, history_empty) =
   Inr (- (1 / 100), \<lparr>train_loss = [1], test_loss = [], test_acc = []\<rparr>, 1,
        [ModelTrainMode,
         ToDevice 0, ZeroGrad 0, Forward 0, ComputeLoss 0, Backward 0, OptimizerStep 0,
         LogProgress 0, HistoryAppend])"
  by (simp add: train_def batch_ops_def batch_loss_def batch_inputs_def batch_targets_def
      toy_net_def toy_criterion_def toy_optimizer_step_def history_empty_def)

text \<open>
  C6, as amended. With \<^verbatim>\<open>dry_run\<close> on and a positive log interval, \<^verbatim>\<open>train\<close> stops at
  the first log point, which is batch 0: it processes the first batch only (none if the
  loader is empty), so at most one batch and hence at most \<^verbatim>\<open>log_interval + 1\<close>, and it
  returns the loss of that batch, a real number, after appending it to the history.
\<close>

theorem dry_run_stops_at_first_log_point:
  assumes "dry_run a" and "0 < log_interval a"
  shows "train a nt r ld (p, h) =
           Inr (params_after nt r p (take 1 (batches ld)),
                h\<lparr>train_loss := train_loss h @ [sum_list (batch_losses nt r p (take 1 (batches ld)))]\<rparr>,
                sum_list (batch_losses nt r p (take 1 (batches ld))),
                ModelTrainMode #
                  concat (map (\<lambda>j. batch_ops j @ [LogProgress j]) [0..<length (take 1 (batches ld))]) @
                  [HistoryAppend]) \<and>
         filter is_optimizer_step
           (ModelTrainMode #
              concat (map (\<lambda>j. batch_ops j @ [LogProgress j]) [0..<length (take 1 (batches ld))]) @
              [HistoryAppend]) = map OptimizerStep [0..<length (take 1 (batches ld))] \<and>
         length (take 1 (batches ld)) \<le> 1 \<and>
         int (length (take 1 (batches ld))) \<le> log_interval a + 1"
proof (cases "batches ld")
  case Nil
  then show ?thesis using assms by (simp add: train_def)
next
  case (Cons b bs)
  then show ?thesis using assms by (simp add: train_def Let_def batch_ops_def)
qed

theorem dry_run_stops_at_first_log_point_witness:
  "train \<lparr>batch_size = 64, test_batch_size = 1000, epochs = 199, lr = 1 / 100, gamma = 1 / 2,
          no_cuda = False, dry_run = True, log_interval = 2, save_model = True,
          args.dataset = 0, model = False, calc_time = False\<rparr>
     toy_net (1 / 100)
     \<lparr>dataset = [(0, 0, 1), (0, 0, 2), (0, 0, 4)],
      batches = [[(0, 0, 1)], [(0, 0, 2)], [(0, 0, 4)]]\<rparr>
     (0, history_empty) =
   Inr (- (1 / 100), \<lparr>train_loss = [1], test_loss = [], test_acc = []\<rparr>, 1,
        [ModelTrainMode,
         ToDevice 0, ZeroGrad 0, Forward 0, ComputeLoss 0, Backward 0, OptimizerStep 0,
         LogProgress 0, HistoryAppend])"
proof -
  let ?a = "\<lparr>batch_size = 64, test_batch_size = 1000, epochs = 199, lr = 1 / 100, gamma = 1 / 2,
          no_cuda = False, dry_run = True, log_interval = 2, save_model = True,
          args.dataset = 0, model = False, calc_time = False\<rparr>"
  have h1: "dry_run ?a" and h2: "0 < log_interval ?a" by simp_all
  from dry_run_stops_at_first_log_point [OF h1 h2, of toy_net "1 / 100"
      "\<lparr>dataset = [(0, 0, 1), (0, 0, 2), (0, 0, 4)],
        batches = [[(0, 0, 1)], [(0, 0, 2)], [(0, 0, 4)]]\<rparr>" 0 history_empty]
  show ?thesis
    by (simp add: batch_ops_def batch_loss_def batch_inputs_def batch_targets_def
        toy_net_def toy_criterion_def toy_optimizer_step_def history_empty_def)
qed

text \<open>
  C6 as stated fails for \<^verbatim>\<open>--log-interval 0\<close>: the test \<^verbatim>\<open>batch_idx % args.log_interval\<close> of
  line 62 divides by zero on the first batch, so \<^verbatim>\<open>train\<close> raises and returns no loss.
\<close>

theorem dry_run_zero_interval_counterexample:
  "train \<lparr>batch_size = 64, test_batch_size = 1000, epochs = 199, lr = 1 / 100, gamma = 1 / 2,
          no_cuda = False, dry_run = True, log_interval = 0, save_model = True,
          args.dataset = 0, model = False, calc_time = False\<rparr>
     toy_net (1 / 100) \<lparr>dataset = [(0, 0, 1), (0, 0, 2)], batches = [[(0, 0, 1)], [(0, 0, 2)]]\<rparr>
     (0, history_empty) = Inl ZeroDivisionError"
  by (simp add: train_def)

section \<open>Properties of the evaluation loop\<close>

lemma argmax_acc_spec:
  "besti < length ys \<Longrightarrow> ys ! besti = best \<Longrightarrow> length ys = i \<Longrightarrow>
   \<forall>j < length ys. ys ! j \<le> best \<Longrightarrow>
   argmax_acc best besti i xs < length (ys @ xs) \<and>
   (\<forall>j < length (ys @ xs). (ys @ xs) ! j \<le> (ys @ xs) ! argmax_acc best besti i xs)"
proof (induction xs arbitrary: ys best besti i)
  case Nil
  then show ?case by simp
next
  case (Cons x xs)
  let ?ys = "ys @ [x]"
  have len: "length ?ys = Suc i" using Cons.prems(3) by simp
  show ?case
  proof (cases "best < x")
    case True
    have a: "i < length ?ys" using Cons.prems(3) by simp
    have b: "?ys ! i = x" using Cons.prems(3) nth_append_length [of ys x "[]"] by simp
    have c: "\<forall>j < length ?ys. ?ys ! j \<le> x"
      using Cons.prems(4) True by (auto simp: nth_append less_Suc_eq)
    from Cons.IH [OF a b len c] True show ?thesis by simp
  next
    case False
    have a: "besti < length ?ys" using Cons.prems(1) by simp
    have b: "?ys ! besti = best" using Cons.prems(1,2) by (simp add: nth_append)
    have c: "\<forall>j < length ?ys. ?ys ! j \<le> best"
      using Cons.prems(4) False by (auto simp: nth_append less_Suc_eq)
    from Cons.IH [OF a b len c] False show ?thesis by simp
  qed
qed

lemma argmax_is_max:
  assumes "argmax scores = Some k"
  shows "k < length scores \<and> (\<forall>j < length scores. scores ! j \<le> scores ! k)"
proof (cases scores)
  case Nil
  with assms show ?thesis by (simp add: argmax_def)
next
  case (Cons x xs)
  have k: "k = argmax_acc x 0 1 xs" using assms Cons by (simp add: argmax_def)
  from argmax_acc_spec [of 0 "[x]" x 1 xs] k Cons show ?thesis by simp
qed

lemma is_correct_iff:
  "is_correct nt p e \<longleftrightarrow>
     (\<exists>k. argmax (model_eval nt p (fst e) (fst (snd e))) = Some k \<and> int k = snd (snd e))"
  by (cases e) (auto simp: is_correct_def split: option.splits)

lemma eval_batch_ok:
  "\<forall>e \<in> set b. has_scores nt p e \<Longrightarrow>
   eval_batch nt p b =
     Inr (sum_list (map (loss_of nt p) b), length (filter (is_correct nt p) b))"
proof (induction b)
  case Nil
  then show ?case by simp
next
  case (Cons e es)
  have "model_eval nt p (fst e) (fst (snd e)) \<noteq> []"
    using Cons.prems by (simp add: has_scores_def)
  then obtain k where k: "argmax (model_eval nt p (fst e) (fst (snd e))) = Some k"
    by (cases "model_eval nt p (fst e) (fst (snd e))") (simp_all add: argmax_def)
  have c: "is_correct nt p e \<longleftrightarrow> int k = snd (snd e)"
    using k by (simp add: is_correct_iff)
  have "eval_batch nt p es =
          Inr (sum_list (map (loss_of nt p) es), length (filter (is_correct nt p) es))"
    using Cons by simp
  with k c show ?case by simp
qed

lemma test_loop_ok:
  "\<forall>e \<in> set (concat bs). has_scores nt p e \<Longrightarrow>
   test_loop nt p bs (l, c) =
     Inr (l + sum_list (map (loss_of nt p) (concat bs)),
          c + length (filter (is_correct nt p) (concat bs)))"
proof (induction bs arbitrary: l c)
  case Nil
  then show ?case by simp
next
  case (Cons b bs)
  have b: "\<forall>e \<in> set b. has_scores nt p e" and r: "\<forall>e \<in> set (concat bs). has_scores nt p e"
    using Cons.prems by simp_all
  show ?case by (simp add: eval_batch_ok [OF b] Cons.IH [OF r] add.assoc)
qed

lemma test_value:
  assumes "concat (batches ld) = dataset ld" and "dataset ld \<noteq> []"
    and "\<forall>e \<in> set (dataset ld). has_scores nt p e"
  shows "test nt p ld h =
           Inr (h\<lparr>test_loss := test_loss h @
                      [sum_list (map (loss_of nt p) (dataset ld)) / real (length (dataset ld))],
                    test_acc := test_acc h @
                      [real (length (filter (is_correct nt p) (dataset ld))) /
                       real (length (dataset ld))]\<rparr>)"
proof -
  have "\<forall>e \<in> set (concat (batches ld)). has_scores nt p e" using assms(1,3) by simp
  from test_loop_ok [OF this, of 0 0] assms(1,2) show ?thesis by (simp add: test_def)
qed

lemma DataLoader_batches:
  assumes "DataLoader bs ds = Inr ld"
  shows "dataset ld = ds \<and> batches ld = chunks (nat bs) ds \<and> 0 < bs"
  using assms by (cases "bs \<le> 0") (auto simp: DataLoader_def)

lemma concat_chunks: "0 < n \<Longrightarrow> concat (chunks n xs) = xs"
proof (induction n xs rule: chunks.induct)
  case (1 n xs)
  show ?case
  proof (cases "xs = []")
    case True
    then show ?thesis by (subst chunks.simps) simp
  next
    case False
    with "1.prems" have "concat (chunks n (drop n xs)) = drop n xs"
      using "1.IH" by simp
    with False "1.prems" show ?thesis
      by (subst chunks.simps) simp
  qed
qed

text \<open>
  C4. For a loader whose batches make up its dataset, a dataset that is not empty and a
  network that scores at least one class, \<^verbatim>\<open>test\<close> records as accuracy the number of examples
  whose predicted class equals the label, divided by the size of the dataset. The predicted
  class is an index of a largest score. In particular, with ten examples, a
  network that always predicts class 0 and three examples labelled 0, the recorded accuracy
  is 3/10.
\<close>

theorem test_accuracy_is_correct_over_size:
  assumes "concat (batches ld) = dataset ld" and "dataset ld \<noteq> []"
    and "\<forall>e \<in> set (dataset ld). has_scores nt p e"
  shows "(\<exists>avg. test nt p ld h =
            Inr (h\<lparr>test_loss := test_loss h @ [avg],
                     test_acc := test_acc h @
                       [real (length (filter (is_correct nt p) (dataset ld))) /
                        real (length (dataset ld))]\<rparr>)) \<and>
         (\<forall>e \<in> set (dataset ld). is_correct nt p e \<longleftrightarrow>
            (\<exists>k. argmax (model_eval nt p (fst e) (fst (snd e))) = Some k \<and> int k = snd (snd e))) \<and>
         (\<forall>scores k. argmax scores = Some k \<longrightarrow>
            k < length scores \<and> (\<forall>j < length scores. scores ! j \<le> scores ! k)) \<and>
         (length (dataset ld) = 10 \<and>
          (\<forall>e \<in> set (dataset ld). argmax (model_eval nt p (fst e) (fst (snd e))) = Some 0) \<and>
          length (filter (\<lambda>e. snd (snd e) = 0) (dataset ld)) = 3 \<longrightarrow>
          (\<exists>avg. test nt p ld h =
             Inr (h\<lparr>test_loss := test_loss h @ [avg], test_acc := test_acc h @ [3 / 10]\<rparr>)))"
proof -
  note tv = test_value [OF assms, of h]
  have one: "\<exists>avg. test nt p ld h =
            Inr (h\<lparr>test_loss := test_loss h @ [avg],
                     test_acc := test_acc h @
                       [real (length (filter (is_correct nt p) (dataset ld))) /
                        real (length (dataset ld))]\<rparr>)"
    using tv by blast
  have four: "\<exists>avg. test nt p ld h =
             Inr (h\<lparr>test_loss := test_loss h @ [avg], test_acc := test_acc h @ [3 / 10]\<rparr>)"
    if ten: "length (dataset ld) = 10"
      and zero: "\<forall>e \<in> set (dataset ld). argmax (model_eval nt p (fst e) (fst (snd e))) = Some 0"
      and three: "length (filter (\<lambda>e. snd (snd e) = 0) (dataset ld)) = 3"
  proof -
    have "filter (is_correct nt p) (dataset ld) = filter (\<lambda>e. snd (snd e) = 0) (dataset ld)"
      using zero by (intro filter_cong) (auto simp: is_correct_iff)
    then have "real (length (filter (is_correct nt p) (dataset ld))) / real (length (dataset ld))
                 = 3 / 10"
      using ten three by simp
    with tv show ?thesis by auto
  qed
  from one four is_correct_iff [of nt p] argmax_is_max show ?thesis by blast
qed

theorem test_accuracy_is_correct_over_size_witness:
  "test toy_net 0
     \<lparr>dataset = [(1, 0, 0), (1, 0, 1), (1, 0, 0), (1, 0, 1), (1, 0, 1),
                 (1, 0, 0), (1, 0, 1), (1, 0, 1), (1, 0, 1), (1, 0, 1)],
      batches = [[(1, 0, 0), (1, 0, 1), (1, 0, 0), (1, 0, 1)],
                 [(1, 0, 1), (1, 0, 0), (1, 0, 1), (1, 0, 1)],
                 [(1, 0, 1), (1, 0, 1)]]\<rparr> history_empty =
   Inr \<lparr>train_loss = [], test_loss = [1], test_acc = [3 / 10]\<rparr>"
proof -
  let ?ds = "[(1, 0, 0), (1, 0, 1), (1, 0, 0), (1, 0, 1), (1, 0, 1),
              (1, 0, 0), (1, 0, 1), (1, 0, 1), (1, 0, 1), (1, 0, 1)] :: (real, real) example list"
  let ?ld = "\<lparr>dataset = ?ds,
              batches = [[(1, 0, 0), (1, 0, 1), (1, 0, 0), (1, 0, 1)],
                         [(1, 0, 1), (1, 0, 0), (1, 0, 1), (1, 0, 1)],
                         [(1, 0, 1), (1, 0, 1)]]\<rparr>"
  have h1: "concat (batches ?ld) = dataset ?ld" by simp
  have h2: "dataset ?ld \<noteq> []" by simp
  have h3: "\<forall>e \<in> set (dataset ?ld). has_scores toy_net (0::real) e"
    by (simp add: has_scores_def toy_net_def toy_model_eval_def)
  have h4: "length (dataset ?ld) = 10 \<and>
      (\<forall>e \<in> set (dataset ?ld). argmax (model_eval toy_net (0::real) (fst e) (fst (snd e))) = Some 0) \<and>
      length (filter (\<lambda>e. snd (snd e) = 0) (dataset ?ld)) = 3"
    by (simp add: toy_net_def toy_model_eval_def argmax_def)
  from test_accuracy_is_correct_over_size [OF h1 h2 h3, of history_empty] h4
  obtain avg where
    t: "test toy_net 0 ?ld history_empty =
          Inr (history_empty\<lparr>test_loss := test_loss history_empty @ [avg],
                             test_acc := test_acc history_empty @ [3 / 10]\<rparr>)"
    by blast
  have "test toy_net 0 ?ld history_empty = Inr \<lparr>train_loss = [], test_loss = [1], test_acc = [3 / 10]\<rparr>"
    by (simp add: test_def toy_net_def toy_model_eval_def toy_example_loss_def argmax_def
        loss_of_def history_empty_def)
  with t show ?thesis by simp
qed

section \<open>Properties of the scheduler\<close>

lemma sched_step_lr_cases:
  "current_lr (sched_step cfg s m) = current_lr s \<or>
   current_lr (sched_step cfg s m) = reduce_lr cfg (current_lr s)"
  by (simp add: sched_step_def observe_def)

lemma reduce_lr_bounds:
  assumes "factor cfg < 1" and "0 \<le> min_lr cfg" and "min_lr cfg \<le> r"
  shows "min_lr cfg \<le> reduce_lr cfg r" and "reduce_lr cfg r \<le> r"
proof -
  show "min_lr cfg \<le> reduce_lr cfg r" by (simp add: reduce_lr_def)
  have "0 \<le> r" using assms by linarith
  then have "r * factor cfg \<le> r * 1"
    using assms(1) by (intro mult_left_mono) simp_all
  then show "reduce_lr cfg r \<le> r" using assms(3) by (simp add: reduce_lr_def)
qed

lemma sched_step_lr_bounds:
  assumes "factor cfg < 1" and "0 \<le> min_lr cfg" and "min_lr cfg \<le> current_lr s"
  shows "min_lr cfg \<le> current_lr (sched_step cfg s m) \<and>
         current_lr (sched_step cfg s m) \<le> current_lr s"
  using sched_step_lr_cases [of cfg s m] reduce_lr_bounds [OF assms] assms(3) by auto

lemma lr_trace_bounded:
  assumes "factor cfg < 1" and "0 \<le> min_lr cfg"
  shows "min_lr cfg \<le> current_lr s \<Longrightarrow>
         \<forall>x \<in> set (lr_trace cfg s ms). min_lr cfg \<le> x \<and> x \<le> current_lr s"
proof (induction ms arbitrary: s)
  case Nil
  then show ?case by simp
next
  case (Cons m ms)
  have b: "min_lr cfg \<le> current_lr (sched_step cfg s m)"
    and d: "current_lr (sched_step cfg s m) \<le> current_lr s"
    using sched_step_lr_bounds [OF assms Cons.prems] by simp_all
  from Cons.IH [OF b] d Cons.prems show ?case by fastforce
qed

lemma lr_trace_nonincreasing:
  assumes "factor cfg < 1" and "0 \<le> min_lr cfg"
  shows "min_lr cfg \<le> current_lr s \<Longrightarrow> sorted_wrt (\<ge>) (lr_trace cfg s ms)"
proof (induction ms arbitrary: s)
  case Nil
  then show ?case by simp
next
  case (Cons m ms)
  have b: "min_lr cfg \<le> current_lr (sched_step cfg s m)"
    and d: "current_lr (sched_step cfg s m) \<le> current_lr s"
    using sched_step_lr_bounds [OF assms Cons.prems] by simp_all
  have "\<forall>x \<in> set (lr_trace cfg (sched_step cfg s m) ms). x \<le> current_lr s"
    using lr_trace_bounded [OF assms b, of ms] d by fastforce
  with Cons.IH [OF b] show ?case by simp
qed

lemma sched_run_append:
  "sched_run cfg s (xs @ ys) = sched_run cfg (sched_run cfg s xs) ys"
  by (induction xs arbitrary: s) simp_all

lemma count_reductions_append:
  "count_reductions cfg s (xs @ ys) =
     count_reductions cfg s xs + count_reductions cfg (sched_run cfg s xs) ys"
  by (induction xs arbitrary: s) simp_all

lemma stagnant_step:
  assumes "\<not> in_cooldown s" and "\<not> improves cfg m (best_loss_so_far s)"
    and "epochs_since_improvement s < patience cfg"
  shows "sched_step cfg s m = s\<lparr>epochs_since_improvement := Suc (epochs_since_improvement s)\<rparr>"
    and "\<not> reduction_triggered cfg s m"
  using assms by (simp_all add: sched_step_def reduction_triggered_def observe_def)

lemma stagnant_run:
  "\<not> in_cooldown s \<Longrightarrow> \<forall>m \<in> set ms. \<not> improves cfg m (best_loss_so_far s) \<Longrightarrow>
   epochs_since_improvement s + length ms \<le> patience cfg \<Longrightarrow>
   sched_run cfg s ms = s\<lparr>epochs_since_improvement := epochs_since_improvement s + length ms\<rparr> \<and>
   count_reductions cfg s ms = 0"
proof (induction ms arbitrary: s)
  case Nil
  then show ?case by simp
next
  case (Cons m ms)
  let ?s = "s\<lparr>epochs_since_improvement := Suc (epochs_since_improvement s)\<rparr>"
  have lt: "epochs_since_improvement s < patience cfg" using Cons.prems(3) by simp
  have ni: "\<not> improves cfg m (best_loss_so_far s)" using Cons.prems(2) by simp
  have st: "sched_step cfg s m = ?s" and nt: "\<not> reduction_triggered cfg s m"
    using stagnant_step [OF Cons.prems(1) ni lt] by simp_all
  have c: "\<not> in_cooldown ?s" using Cons.prems(1) by (simp add: in_cooldown_def)
  have i: "\<forall>m \<in> set ms. \<not> improves cfg m (best_loss_so_far ?s)" using Cons.prems(2) by simp
  have l: "epochs_since_improvement ?s + length ms \<le> patience cfg" using Cons.prems(3) by simp
  from Cons.IH [OF c i l] st nt show ?case by simp
qed

lemma improving_step:
  assumes "\<not> in_cooldown s" and "improves cfg m (best_loss_so_far s)"
  shows "\<not> in_cooldown (sched_step cfg s m)"
    and "epochs_since_improvement (sched_step cfg s m) = 0"
    and "best_loss_so_far (sched_step cfg s m) = Some m"
    and "current_lr (sched_step cfg s m) = current_lr s"
  using assms
  by (simp_all add: sched_step_def reduction_triggered_def observe_def in_cooldown_def)

lemma plateau_step:
  assumes "\<not> in_cooldown s" and "\<not> improves cfg m (best_loss_so_far s)"
    and "epochs_since_improvement s = patience cfg"
  shows "reduction_triggered cfg s m"
    and "current_lr (sched_step cfg s m) = reduce_lr cfg (current_lr s)"
    and "cooldown_remaining (sched_step cfg s m) = cooldown cfg"
  using assms by (simp_all add: sched_step_def reduction_triggered_def observe_def)

lemma cooldown_step:
  assumes "in_cooldown s"
  shows "\<not> reduction_triggered cfg s m"
    and "current_lr (sched_step cfg s m) = current_lr s"
  using assms by (simp_all add: sched_step_def reduction_triggered_def)

text \<open>
  C1, as amended. For a reduction factor below one and a learning rate that starts at or
  above the floor of 5e-6, whatever losses the scheduler of line 239 is fed, the sequence of
  learning rates (the initial one, then the one after each call of \<^verbatim>\<open>step\<close>) never
  increases and never goes below 5e-6.
\<close>

theorem lr_never_increases_nor_passes_floor:
  assumes "g < 1" and "5 / 10 ^ 6 \<le> current_lr s"
  shows "sorted_wrt (\<ge>) (lr_trace (scheduler_config g th) s ms) \<and>
         (\<forall>x \<in> set (lr_trace (scheduler_config g th) s ms). 5 / 10 ^ 6 \<le> x)"
proof -
  let ?cfg = "scheduler_config g th"
  have f: "factor ?cfg < 1" and z: "0 \<le> min_lr ?cfg" and m: "min_lr ?cfg \<le> current_lr s"
    using assms by (simp_all add: scheduler_config_def)
  have "min_lr ?cfg = 5 / 10 ^ 6" by (simp add: scheduler_config_def)
  with lr_trace_nonincreasing [OF f z m, of ms] lr_trace_bounded [OF f z m, of ms]
  show ?thesis by simp
qed

theorem lr_never_increases_nor_passes_floor_witness:
  "(1 / 2 :: real) < 1 \<and> 5 / 10 ^ 6 \<le> current_lr (scheduler_init (1 / 100)) \<and>
   sorted_wrt (\<ge>) (lr_trace (scheduler_config (1 / 2) (1 / 10 ^ 4)) (scheduler_init (1 / 100))
                      [3, 2, 2, 2, 2, 2, 2, 2, 2]) \<and>
   lr_trace (scheduler_config (1 / 2) (1 / 10 ^ 4)) (scheduler_init (1 / 100))
     [3, 2, 2, 2, 2, 2, 2, 2, 2]
     = [1 / 100, 1 / 100, 1 / 100, 1 / 100, 1 / 100, 1 / 100, 1 / 100, 1 / 100, 1 / 200, 1 / 200]"
proof -
  have h1: "(1 / 2 :: real) < 1" by simp
  have h2: "5 / 10 ^ 6 \<le> current_lr (scheduler_init (1 / 100))"
    by (simp add: scheduler_init_def)
  have tr: "lr_trace (scheduler_config (1 / 2) (1 / 10 ^ 4)) (scheduler_init (1 / 100))
       [3, 2, 2, 2, 2, 2, 2, 2, 2]
     = [1 / 100, 1 / 100, 1 / 100, 1 / 100, 1 / 100, 1 / 100, 1 / 100, 1 / 100, 1 / 200, 1 / 200]"
    by (simp add: scheduler_config_def scheduler_init_def sched_step_def observe_def
        reduction_triggered_def in_cooldown_def improves_def reduce_lr_def)
  from lr_never_increases_nor_passes_floor
         [OF h1 h2, of "1 / 10 ^ 4" "[3, 2, 2, 2, 2, 2, 2, 2, 2]"] h1 h2 tr
  show ?thesis by simp
qed

text \<open>
  C1 as stated fails when the run starts below the floor: with \<^verbatim>\<open>--lr 1e-6\<close> the rate the
  scheduler maintains after the first epoch is 1e-6, under the floor of 5e-6.
\<close>

theorem lr_below_floor_counterexample:
  "current_lr (sched_step (scheduler_config (1 / 2) (1 / 10 ^ 4)) (scheduler_init (1 / 10 ^ 6)) 1)
     < 5 / 10 ^ 6"
  by (simp add: scheduler_config_def scheduler_init_def sched_step_def observe_def
        reduction_triggered_def in_cooldown_def improves_def reduce_lr_def)

text \<open>
  C2. With the configuration of line 239, starting in the tracking state with no stagnant
  epoch counted, six metrics in a row that do not improve on the best loss cause exactly one
  reduction, at the sixth: the rate becomes the old rate times the factor, floored at 5e-6.
  The scheduler is then in cooldown, and any seventh metric causes no reduction and leaves
  the rate as it is.
\<close>

theorem six_stagnant_epochs_reduce_once:
  assumes "\<not> in_cooldown s" and "epochs_since_improvement s = 0" and "length ms = 6"
    and "\<forall>m \<in> set ms. \<not> improves (scheduler_config g th) m (best_loss_so_far s)"
  shows "count_reductions (scheduler_config g th) s (butlast ms) = 0 \<and>
         count_reductions (scheduler_config g th) s ms = 1 \<and>
         current_lr (sched_run (scheduler_config g th) s ms) = max (current_lr s * g) (5 / 10 ^ 6) \<and>
         (5 / 10 ^ 6 \<le> current_lr s * g \<longrightarrow>
            current_lr (sched_run (scheduler_config g th) s ms) = current_lr s * g) \<and>
         in_cooldown (sched_run (scheduler_config g th) s ms) \<and>
         \<not> reduction_triggered (scheduler_config g th) (sched_run (scheduler_config g th) s ms) m7 \<and>
         count_reductions (scheduler_config g th) s (ms @ [m7]) = 1 \<and>
         current_lr (sched_run (scheduler_config g th) s (ms @ [m7])) =
           current_lr (sched_run (scheduler_config g th) s ms)"
proof -
  let ?cfg = "scheduler_config g th"
  let ?s5 = "s\<lparr>epochs_since_improvement := 5\<rparr>"
  have ne: "ms \<noteq> []" using assms(3) by auto
  then have split: "ms = butlast ms @ [last ms]" by simp
  have l5: "length (butlast ms) = 5" using assms(3) by simp
  have "set (butlast ms) \<subseteq> set ms" by (meson in_set_butlastD subsetI)
  then have i5: "\<forall>m \<in> set (butlast ms). \<not> improves ?cfg m (best_loss_so_far s)"
    using assms(4) by blast
  have b5: "epochs_since_improvement s + length (butlast ms) \<le> patience ?cfg"
    using assms(2) l5 by (simp add: scheduler_config_def)
  have r5: "sched_run ?cfg s (butlast ms) = ?s5" and c5: "count_reductions ?cfg s (butlast ms) = 0"
    using stagnant_run [OF assms(1) i5 b5] assms(2) l5 by simp_all
  have nc: "\<not> in_cooldown ?s5" using assms(1) by (simp add: in_cooldown_def)
  have ni: "\<not> improves ?cfg (last ms) (best_loss_so_far ?s5)" using assms(4) ne by simp
  have pt: "epochs_since_improvement ?s5 = patience ?cfg" by (simp add: scheduler_config_def)
  note six = plateau_step [OF nc ni pt]
  have run6: "sched_run ?cfg s ms = sched_step ?cfg ?s5 (last ms)"
    using sched_run_append [of ?cfg s "butlast ms" "[last ms]"] split r5 by simp
  have c6: "count_reductions ?cfg s ms = 1"
    using count_reductions_append [of ?cfg s "butlast ms" "[last ms]"] split r5 c5 six(1) by simp
  have lr6: "current_lr (sched_run ?cfg s ms) = max (current_lr s * g) (5 / 10 ^ 6)"
    using run6 six(2) by (simp add: reduce_lr_def scheduler_config_def)
  have cd: "in_cooldown (sched_run ?cfg s ms)"
    using run6 six(3) by (simp add: in_cooldown_def scheduler_config_def)
  note seven = cooldown_step [OF cd, of ?cfg m7]
  have c7: "count_reductions ?cfg s (ms @ [m7]) = 1"
    using count_reductions_append [of ?cfg s ms "[m7]"] c6 seven(1) by simp
  have lr7: "current_lr (sched_run ?cfg s (ms @ [m7])) = current_lr (sched_run ?cfg s ms)"
    using sched_run_append [of ?cfg s ms "[m7]"] seven(2) by simp
  from c5 c6 lr6 cd seven(1) c7 lr7 show ?thesis by simp
qed

theorem six_stagnant_epochs_reduce_once_witness:
  "count_reductions (scheduler_config (1 / 2) 0)
     \<lparr>current_lr = 1 / 100, best_loss_so_far = Some 1, epochs_since_improvement = 0,
      cooldown_remaining = 0\<rparr> [1, 2, 1, 3, 1, 1] = 1 \<and>
   current_lr (sched_run (scheduler_config (1 / 2) 0)
     \<lparr>current_lr = 1 / 100, best_loss_so_far = Some 1, epochs_since_improvement = 0,
      cooldown_remaining = 0\<rparr> [1, 2, 1, 3, 1, 1]) = 1 / 200 \<and>
   current_lr (sched_run (scheduler_config (1 / 2) 0)
     \<lparr>current_lr = 1 / 100, best_loss_so_far = Some 1, epochs_since_improvement = 0,
      cooldown_remaining = 0\<rparr> ([1, 2, 1, 3, 1, 1] @ [4])) = 1 / 200"
proof -
  let ?s = "\<lparr>current_lr = 1 / 100, best_loss_so_far = Some 1, epochs_since_improvement = 0,
             cooldown_remaining = 0\<rparr>"
  have h1: "\<not> in_cooldown ?s" by (simp add: in_cooldown_def)
  have h2: "epochs_since_improvement ?s = 0" by simp
  have h3: "length [1, 2, 1, 3, 1, 1 :: real] = 6" by simp
  have h4: "\<forall>m \<in> set [1, 2, 1, 3, 1, 1]. \<not> improves (scheduler_config (1 / 2) 0) m (best_loss_so_far ?s)"
    by (simp add: improves_def scheduler_config_def)
  from six_stagnant_epochs_reduce_once [OF h1 h2 h3 h4, of 4] show ?thesis by simp
qed

section \<open>Properties of the history\<close>

lemma train_history:
  "train a nt r ld (p, h) = Inr (p', h', loss, ops) \<Longrightarrow>
   h' = h\<lparr>train_loss := train_loss h @ [loss]\<rparr>"
  by (auto simp: train_def split: sum.splits)

lemma test_history:
  assumes "test nt p ld h = Inr h'"
  shows "\<exists>x y. h' = h\<lparr>test_loss := test_loss h @ [x], test_acc := test_acc h @ [y]\<rparr>"
proof -
  from assms obtain l c where
    "h' = h\<lparr>test_loss := test_loss h @ [l / real (length (dataset ld))],
              test_acc := test_acc h @ [real c / real (length (dataset ld))]\<rparr>"
    by (auto simp: test_def split: sum.splits if_splits)
  then show ?thesis by blast
qed

lemma run_epochs_history:
  "run_epochs a nt cfg train_loader test_loader es ((p, s, h), ev) = (Inr (p', s', h'), ev') \<Longrightarrow>
   \<exists>xs ys zs. length xs = length es \<and> length ys = length es \<and> length zs = length es \<and>
     h' = \<lparr>train_loss = train_loss h @ xs, test_loss = test_loss h @ ys,
           test_acc = test_acc h @ zs\<rparr>"
proof (induction es arbitrary: p s h ev)
  case Nil
  then show ?case by simp
next
  case (Cons e es)
  show ?case
  proof (cases "train a nt (current_lr s) (train_loader e) (p, h)")
    case (Inl err)
    with Cons.prems show ?thesis by simp
  next
    case tr: (Inr res)
    obtain p1 h1 loss ops where res: "res = (p1, h1, loss, ops)" by (cases res) auto
    have h1: "h1 = h\<lparr>train_loss := train_loss h @ [loss]\<rparr>"
      using train_history [of a nt "current_lr s" "train_loader e" p h p1 h1 loss ops] tr res
      by simp
    show ?thesis
    proof (cases "test nt p1 test_loader h1")
      case (Inl err)
      with Cons.prems tr res show ?thesis by simp
    next
      case te: (Inr h2)
      obtain x y where h2: "h2 = h1\<lparr>test_loss := test_loss h1 @ [x], test_acc := test_acc h1 @ [y]\<rparr>"
        using test_history [OF te] by blast
      have "run_epochs a nt cfg train_loader test_loader es
              ((p1, sched_step cfg s loss, h2),
               ev @ [TrainEpoch e, TestEpoch e, SchedulerStep e]) = (Inr (p', s', h'), ev')"
        using Cons.prems tr res te by simp
      from Cons.IH [OF this] obtain xs ys zs where
        l: "length xs = length es" "length ys = length es" "length zs = length es" and
        h': "h' = \<lparr>train_loss = train_loss h2 @ xs, test_loss = test_loss h2 @ ys,
                   test_acc = test_acc h2 @ zs\<rparr>"
        by blast
      have "h' = \<lparr>train_loss = train_loss h @ (loss # xs), test_loss = test_loss h @ (x # ys),
                  test_acc = test_acc h @ (y # zs)\<rparr>"
        using h' h2 h1 by simp
      moreover have "length (loss # xs) = length (e # es)" "length (x # ys) = length (e # es)"
        "length (y # zs) = length (e # es)"
        using l by simp_all
      ultimately show ?thesis by blast
    qed
  qed
qed

text \<open>
  C9. If the epoch loop of lines 240 to 244 completes the epochs \<open>es\<close>, each of the three
  series of the history has grown by exactly one entry per epoch and the entries it held
  before are still there, in place, as a prefix. The history starts empty (lines 31 to 35),
  so after the loop each series has as many entries as epochs were completed. The entries
  come from \<^verbatim>\<open>train\<close> (line 70) and \<^verbatim>\<open>test\<close> (lines 92 and 93); the scheduler step
  receives the loss only.
\<close>

theorem history_append_only:
  assumes "run_epochs a nt cfg train_loader test_loader es ((p, s, h), ev) = (Inr (p', s', h'), ev')"
  shows "length (train_loss h') = length (train_loss h) + length es \<and>
         length (test_loss h') = length (test_loss h) + length es \<and>
         length (test_acc h') = length (test_acc h) + length es \<and>
         prefix (train_loss h) (train_loss h') \<and>
         prefix (test_loss h) (test_loss h') \<and>
         prefix (test_acc h) (test_acc h') \<and>
         (h = history_empty \<longrightarrow>
            length (train_loss h') = length es \<and> length (test_loss h') = length es \<and>
            length (test_acc h') = length es)"
proof -
  from run_epochs_history [OF assms] obtain xs ys zs where
    l: "length xs = length es" "length ys = length es" "length zs = length es" and
    h': "h' = \<lparr>train_loss = train_loss h @ xs, test_loss = test_loss h @ ys,
               test_acc = test_acc h @ zs\<rparr>"
    by blast
  show ?thesis using l by (simp add: h' history_empty_def)
qed

theorem history_append_only_witness:
  "run_epochs
     \<lparr>batch_size = 2, test_batch_size = 1000, epochs = 2, lr = 1 / 100, gamma = 1 / 2,
      no_cuda = False, dry_run = False, log_interval = 2, save_model = True,
      args.dataset = 0, model = False, calc_time = False\<rparr>
     toy_net (scheduler_config (1 / 2) (1 / 10 ^ 4))
     (\<lambda>epoch. \<lparr>dataset = [(1, 0, 0), (0, 1, 1), (1, 0, 1)],
                batches = [[(1, 0, 0), (0, 1, 1)], [(1, 0, 1)]]\<rparr>)
     \<lparr>dataset = [(1, 0, 0), (0, 1, 1), (1, 0, 1)],
      batches = [[(1, 0, 0), (0, 1, 1), (1, 0, 1)]]\<rparr>
     [1, 2] ((0, scheduler_init (1 / 100), history_empty), []) =
   (Inr (- (1 / 25),
         \<lparr>current_lr = 1 / 100, best_loss_so_far = Some 2, epochs_since_improvement = 1,
          cooldown_remaining = 0\<rparr>,
         \<lparr>train_loss = [2, 2], test_loss = [1, 1], test_acc = [2 / 3, 2 / 3]\<rparr>),
    [TrainEpoch 1, TestEpoch 1, SchedulerStep 1, TrainEpoch 2, TestEpoch 2, SchedulerStep 2]) \<and>
   length (train_loss \<lparr>train_loss = [2, 2], test_loss = [1, 1], test_acc = [2 / 3, 2 / 3 :: real]\<rparr>)
     = length (train_loss history_empty) + length [1, 2 :: int]"
proof -
  have r: "run_epochs
     \<lparr>batch_size = 2, test_batch_size = 1000, epochs = 2, lr = 1 / 100, gamma = 1 / 2,
      no_cuda = False, dry_run = False, log_interval = 2, save_model = True,
      args.dataset = 0, model = False, calc_time = False\<rparr>
     toy_net (scheduler_config (1 / 2) (1 / 10 ^ 4))
     (\<lambda>epoch. \<lparr>dataset = [(1, 0, 0), (0, 1, 1), (1, 0, 1)],
                batches = [[(1, 0, 0), (0, 1, 1)], [(1, 0, 1)]]\<rparr>)
     \<lparr>dataset = [(1, 0, 0), (0, 1, 1), (1, 0, 1)],
      batches = [[(1, 0, 0), (0, 1, 1), (1, 0, 1)]]\<rparr>
     [1, 2] ((0, scheduler_init (1 / 100), history_empty), []) =
   (Inr (- (1 / 25),
         \<lparr>current_lr = 1 / 100, best_loss_so_far = Some 2, epochs_since_improvement = 1,
          cooldown_remaining = 0\<rparr>,
         \<lparr>train_loss = [2, 2], test_loss = [1, 1], test_acc = [2 / 3, 2 / 3]\<rparr>),
    [TrainEpoch 1, TestEpoch 1, SchedulerStep 1, TrainEpoch 2, TestEpoch 2, SchedulerStep 2])"
    by (simp add: train_def test_def batch_ops_def batch_loss_def batch_inputs_def
        batch_targets_def toy_net_def toy_criterion_def toy_optimizer_step_def
        toy_model_eval_def toy_example_loss_def argmax_def loss_of_def history_empty_def
        scheduler_config_def scheduler_init_def sched_step_def observe_def
        reduction_triggered_def in_cooldown_def improves_def reduce_lr_def)
  from history_append_only [OF r] r show ?thesis by simp
qed

section \<open>Properties of the program\<close>

text \<open>
  C7, as amended. For a dataset selector other than 0, 1 and 2 the program exits with
  status 1 before any data is loaded, any model is built and any epoch is run. What has
  happened by then is what precedes the selector test: the run directory and the log file
  have been created, and where CUDA is available a tensor has been allocated on it and
  released.
\<close>

theorem unsupported_dataset_exits:
  assumes "opt_dataset cl = Some d" and "d \<noteq> 0" and "d \<noteq> 1" and "d \<noteq> 2"
  shows "(\<exists>a. parse_args cl = Inr a \<and>
            main sy w cl =
              (module_level sy @ [LogInfo] @ cuda_probe sy @ loader_kwargs sy a @
               [Print ''Unsupported dataset!''], Exited 1)) \<and>
         snd (main sy w cl) = Exited 1 \<and>
         (\<forall>e \<in> set (fst (main sy w cl)). \<not> starts_work e) \<and>
         MakeDir (savedir sy) \<in> set (fst (main sy w cl)) \<and>
         (cuda_available sy \<longrightarrow> CudaAllocate \<in> set (fst (main sy w cl)))"
  using assms
  by (auto simp: main_def parse_args_def module_level_def cuda_probe_def loader_kwargs_def)

theorem unsupported_dataset_exits_witness:
  "snd (main \<lparr>cuda_available = False, timestamp = 0, sep = ''/''\<rparr> toy_world
     \<lparr>opt_batch_size = None, opt_test_batch_size = None, opt_epochs = None, opt_lr = None,
      opt_gamma = None, flag_no_cuda = False, flag_dry_run = False, opt_log_interval = None,
      flag_save_model = False, opt_dataset = Some 7, flag_model = False,
      flag_calc_time = False\<rparr>) = Exited 1"
proof -
  let ?cl = "\<lparr>opt_batch_size = None, opt_test_batch_size = None, opt_epochs = None, opt_lr = None,
      opt_gamma = None, flag_no_cuda = False, flag_dry_run = False, opt_log_interval = None,
      flag_save_model = False, opt_dataset = Some 7, flag_model = False,
      flag_calc_time = False\<rparr>"
  have h1: "opt_dataset ?cl = Some 7" and h2: "(7::int) \<noteq> 0" and h3: "(7::int) \<noteq> 1"
    and h4: "(7::int) \<noteq> 2"
    by simp_all
  from unsupported_dataset_exits [OF h1 h2 h3 h4,
      of "\<lparr>cuda_available = False, timestamp = 0, sep = ''/''\<rparr>" toy_world]
  show ?thesis by simp
qed

text \<open>
  C7 as stated fails on the allocation part: with \<^verbatim>\<open>--dataset 3\<close> on a machine with CUDA, by
  the time the program exits it has created the run directory and the log file and has
  allocated a CUDA tensor.
\<close>

theorem unsupported_dataset_allocates_counterexample:
  "main \<lparr>cuda_available = True, timestamp = 0, sep = ''/''\<rparr> toy_world
     \<lparr>opt_batch_size = None, opt_test_batch_size = None, opt_epochs = None, opt_lr = None,
      opt_gamma = None, flag_no_cuda = False, flag_dry_run = False, opt_log_interval = None,
      flag_save_model = False, opt_dataset = Some 3, flag_model = False,
      flag_calc_time = False\<rparr> =
   ([MakeDir ''experiments/0'', LoggingConfig ''experiments/0/train.log'', LogInfo,
     CudaAllocate, Print ''CUDA initialization test'', CudaEmptyCache, SeedGenerator 42,
     Print ''Unsupported dataset!''], Exited 1)"
  by (simp add: main_def parse_args_def module_level_def cuda_probe_def loader_kwargs_def
      savedir_def str_int_def str_nat.simps [of 0] store_true_def with_default_def)

lemma timing_loop_without_cuda:
  assumes "\<not> cuda_available sy" and "0 < n"
  shows "timing_loop sy n device_list =
           ([TimingHeader ''cpu'', MoveToDevice ''cpu'', WarmUp ''cpu''] @
            map (Invoke ''cpu'') [0..<n] @
            [LogTiming ''cpu'', RestoreModel, TimingHeader ''cuda''], Some CudaUnavailable)"
proof -
  have "concat (map (\<lambda>i. [Invoke ''cpu'' i]) js) = map (Invoke ''cpu'') js" for js
    by (induction js) simp_all
  then show ?thesis
    using assms by (simp add: device_list_def time_device_def sync_def)
qed

lemma calc_time_without_cuda_raises:
  assumes "calc_time a" and "\<not> cuda_available sy" and "test_acc h \<noteq> []"
  shows "snd (after_training sy a n h) \<noteq> Completed"
proof (cases "n = 0")
  case True
  then show ?thesis
    using assms
    by (simp add: after_training_def plot_stage_def device_list_def time_device_def sync_def)
next
  case False
  then have "0 < n" by simp
  from timing_loop_without_cuda [OF assms(2) this] assms(1,3) show ?thesis
    by (simp add: after_training_def plot_stage_def)
qed

text \<open>
  C8 fails on the code. The timing loop goes through \<^verbatim>\<open>['cpu', 'cuda']\<close> without asking
  whether CUDA is there: on a machine without it, with two test examples, the CPU is timed and
  the move to \<^verbatim>\<open>cuda\<close> of line 300 then raises, which ends the run.
\<close>

theorem timing_fails_without_cuda:
  "after_training \<lparr>cuda_available = False, timestamp = 0, sep = ''/''\<rparr>
     \<lparr>batch_size = 64, test_batch_size = 1000, epochs = 1, lr = 1 / 100, gamma = 1 / 2,
      no_cuda = False, dry_run = False, log_interval = 2, save_model = True,
      args.dataset = 0, model = False, calc_time = True\<rparr>
     2 \<lparr>train_loss = [1], test_loss = [1], test_acc = [1 / 2]\<rparr> =
   ([SaveFigure ''experiments/0/perf.png'', MakeDir weights_dir,
     SaveModel (weights_dir @ ''/JHMDB_latest_epoch_1.pt''),
     Print (''Latest model saved to '' @ weights_dir @ ''/JHMDB_latest_epoch_1.pt''),
     TimingHeader ''cpu'', MoveToDevice ''cpu'', WarmUp ''cpu'', Invoke ''cpu'' 0,
     Invoke ''cpu'' 1, LogTiming ''cpu'', RestoreModel, TimingHeader ''cuda''],
    Raised CudaUnavailable)"
proof -
  have u: "[0..<2] = [0, 1]" by (simp add: upt_conv_Cons)
  show ?thesis
    by (simp add: after_training_def plot_stage_def save_stage_def save_path_def filename_def
        dataset_name_def savedir_def str_int_def str_nat.simps [of 0] str_nat.simps [of "Suc 0"]
        device_list_def time_device_def sync_def u)
qed

lemma save_path_outside_savedir: "\<not> prefix (savedir sy) (save_path sy a)"
  by (simp add: savedir_def save_path_def weights_dir_def)

lemma save_path_on_drive: "prefix (''D:'' @ [backslash]) (save_path sy a)"
  by (simp add: save_path_def weights_dir_def)

lemma parsed_save_model: "parse_args cl = Inr a \<Longrightarrow> save_model a"
  by (auto simp: parse_args_def store_true_def split: option.splits)

lemma train_loop_returns:
  "log_interval a \<noteq> 0 \<Longrightarrow> \<exists>st'. train_loop a nt r i bs st = Inr st'"
proof (induction bs arbitrary: i st)
  case Nil
  show ?case by (cases st) auto
next
  case (Cons b bs)
  obtain p l tr where st: "st = (p, l, tr)" by (cases st) auto
  show ?case using Cons by (simp add: st Let_def)
qed

lemma train_returns:
  assumes "log_interval a \<noteq> 0"
  shows "\<exists>p' h' l ops. train a nt r ld (p, h) = Inr (p', h', l, ops)"
proof -
  from train_loop_returns [OF assms, of nt r 0 "batches ld" "(p, 0, [ModelTrainMode])"]
  obtain st' where "train_loop a nt r 0 (batches ld) (p, 0, [ModelTrainMode]) = Inr st'"
    by blast
  then show ?thesis by (cases st') (simp add: train_def)
qed

lemma run_epochs_returns:
  assumes "log_interval a \<noteq> 0" and "concat (batches tel) = dataset tel"
    and "dataset tel \<noteq> []" and "\<forall>p. \<forall>x \<in> set (dataset tel). has_scores nt p x"
  shows "\<exists>p' s' h'. run_epochs a nt cfg trl tel es ((p, s, h), ev) =
           (Inr (p', s', h'), ev @ concat (map epoch_events es))"
proof (induction es arbitrary: p s h ev)
  case Nil
  then show ?case by simp
next
  case (Cons e es)
  from train_returns [OF assms(1), of nt "current_lr s" "trl e" p h]
  obtain p1 h1 l ops where tr: "train a nt (current_lr s) (trl e) (p, h) = Inr (p1, h1, l, ops)"
    by blast
  have "\<forall>x \<in> set (dataset tel). has_scores nt p1 x" using assms(4) by blast
  from test_value [OF assms(2,3) this, of h1]
  obtain h2 where te: "test nt p1 tel h1 = Inr h2" by blast
  from Cons.IH [of p1 "sched_step cfg s l" h2 "ev @ [TrainEpoch e, TestEpoch e, SchedulerStep e]"]
  obtain p' s' h' where
    "run_epochs a nt cfg trl tel es
       ((p1, sched_step cfg s l, h2), ev @ [TrainEpoch e, TestEpoch e, SchedulerStep e]) =
     (Inr (p', s', h'),
      (ev @ [TrainEpoch e, TestEpoch e, SchedulerStep e]) @ concat (map epoch_events es))"
    by blast
  with tr te show ?case by (simp add: epoch_events_def [of e])
qed

lemma after_training_result:
  assumes "save_model a" and "test_acc h \<noteq> []"
  shows "after_training sy a n h =
           ([SaveFigure (savedir sy @ sep sy @ ''perf.png''), MakeDir weights_dir,
             SaveModel (save_path sy a), Print (''Latest model saved to '' @ save_path sy a)] @
            (if calc_time a then fst (timing_loop sy n device_list) else []),
            if calc_time a
            then (case snd (timing_loop sy n device_list) of
                    None \<Rightarrow> Completed | Some e \<Rightarrow> Raised e)
            else Completed)"
proof -
  obtain te r where t: "timing_loop sy n device_list = (te, r)"
    by (cases "timing_loop sy n device_list")
  show ?thesis
    using assms by (cases r) (simp_all add: after_training_def plot_stage_def save_stage_def t)
qed

lemma training_run_result:
  assumes "0 < batch_size a" and "0 < test_batch_size a" and "0 \<le> lr a" and "gamma a < 1"
    and "log_interval a \<noteq> 0" and "1 \<le> epochs a" and "save_model a"
    and "test_examples w (args.dataset a) \<noteq> []"
    and "\<forall>p. \<forall>x \<in> set (test_examples w (args.dataset a)). has_scores (network w) p x"
  shows "training_run sy w a =
           ([LoadData (args.dataset a), BuildModel] @
            concat (map epoch_events [1..epochs a]) @
            [SaveFigure (savedir sy @ sep sy @ ''perf.png''), MakeDir weights_dir,
             SaveModel (save_path sy a), Print (''Latest model saved to '' @ save_path sy a)] @
            (if calc_time a
             then fst (timing_loop sy (length (test_examples w (args.dataset a))) device_list)
             else []),
            if calc_time a
            then (case snd (timing_loop sy (length (test_examples w (args.dataset a))) device_list) of
                    None \<Rightarrow> Completed | Some e \<Rightarrow> Raised e)
            else Completed)"
proof -
  let ?tex = "test_examples w (args.dataset a)"
  let ?tel = "\<lparr>dataset = ?tex, batches = chunks (nat (test_batch_size a)) ?tex\<rparr>"
  let ?cfg = "scheduler_config (gamma a) (plateau_threshold w)"
  let ?trl = "epoch_loader (batch_size a) (\<not> no_cuda a \<and> cuda_available sy) (shuffle w)
                (train_examples w (args.dataset a))"
  let ?ev = "[LoadData (args.dataset a)] @ [BuildModel]"
  have dl: "DataLoader (test_batch_size a) ?tex = Inr ?tel"
    using assms(2) by (simp add: DataLoader_def)
  have cc: "concat (batches ?tel) = dataset ?tel"
    using concat_chunks [of "nat (test_batch_size a)" ?tex] assms(2) by simp
  have ne: "dataset ?tel \<noteq> []" using assms(8) by simp
  have sc: "\<forall>p. \<forall>x \<in> set (dataset ?tel). has_scores (network w) p x" using assms(9) by simp
  from run_epochs_returns [OF assms(5) cc ne sc,
      of ?cfg ?trl "[1..epochs a]" "initial_params w" "scheduler_init (lr a)" history_empty ?ev]
  obtain p' s' h' where
    re: "run_epochs a (network w) ?cfg ?trl ?tel [1..epochs a]
           ((initial_params w, scheduler_init (lr a), history_empty), ?ev) =
         (Inr (p', s', h'), ?ev @ concat (map epoch_events [1..epochs a]))"
    by blast
  from run_epochs_history [OF re] obtain zs where
    zs: "length zs = length [1..epochs a]" and acc: "test_acc h' = test_acc history_empty @ zs"
    by auto
  have "length [1..epochs a] \<noteq> 0" using assms(6) by simp
  with zs acc have nonempty: "test_acc h' \<noteq> []" by auto
  note at = after_training_result [OF assms(7) nonempty, of sy "length ?tex"]
  show ?thesis
    unfolding training_run_def Let_def
    using assms(1,3,4) dl re at
    by (simp add: Adam_def ReduceLROnPlateau_def)
qed

text \<open>
  C10, as amended. Whatever the command line, the parsed \<^verbatim>\<open>save_model\<close> is True: the flag is
  \<^verbatim>\<open>store_true\<close> with default True. In a run with a supported dataset, positive batch sizes,
  a learning rate that is not negative, a factor below one, a log interval other than zero,
  at least one epoch, and a test set that is not empty and is given scores, the epochs
  complete, the plot is saved and the checkpoint is then written, before any timing: the
  call of \<^verbatim>\<open>torch.save\<close> follows the last scheduler step and the figure. Its path is the
  directory of line 276, a literal on drive \<^verbatim>\<open>D:\<close>, joined with a file name made of the
  dataset and the number of epochs; it does not depend on the time stamp and does not lie
  under the run directory.
\<close>

theorem checkpoint_written_after_training:
  assumes "parse_args cl = Inr a"
    and "args.dataset a = 0 \<or> args.dataset a = 1 \<or> args.dataset a = 2"
    and "0 < batch_size a" and "0 < test_batch_size a" and "0 \<le> lr a" and "gamma a < 1"
    and "log_interval a \<noteq> 0" and "1 \<le> epochs a"
    and "test_examples w (args.dataset a) \<noteq> []"
    and "\<forall>p. \<forall>x \<in> set (test_examples w (args.dataset a)). has_scores (network w) p x"
  shows "(\<forall>cl' a'. parse_args cl' = Inr a' \<longrightarrow> save_model a') \<and>
         main sy w cl =
           (module_level sy @ [LogInfo] @ cuda_probe sy @ loader_kwargs sy a @
            [LoadData (args.dataset a), BuildModel] @
            concat (map epoch_events [1..epochs a]) @
            [SaveFigure (savedir sy @ sep sy @ ''perf.png''), MakeDir weights_dir,
             SaveModel (save_path sy a), Print (''Latest model saved to '' @ save_path sy a)] @
            (if calc_time a
             then fst (timing_loop sy (length (test_examples w (args.dataset a))) device_list)
             else []),
            if calc_time a
            then (case snd (timing_loop sy (length (test_examples w (args.dataset a))) device_list) of
                    None \<Rightarrow> Completed | Some e \<Rightarrow> Raised e)
            else Completed) \<and>
         SaveModel (save_path sy a) \<in> set (fst (main sy w cl)) \<and>
         save_path sy a =
           weights_dir @ sep sy @ dataset_name a @ ''_latest_epoch_'' @ str_int (epochs a) @ ''.pt'' \<and>
         prefix (''D:'' @ [backslash]) (save_path sy a) \<and>
         \<not> prefix (savedir sy) (save_path sy a)"
proof -
  have sm: "save_model a" using assms(1) by (rule parsed_save_model)
  note tr = training_run_result [OF assms(3-8) sm assms(9,10), of sy]
  have m: "main sy w cl =
           (module_level sy @ [LogInfo] @ cuda_probe sy @ loader_kwargs sy a @
            [LoadData (args.dataset a), BuildModel] @
            concat (map epoch_events [1..epochs a]) @
            [SaveFigure (savedir sy @ sep sy @ ''perf.png''), MakeDir weights_dir,
             SaveModel (save_path sy a), Print (''Latest model saved to '' @ save_path sy a)] @
            (if calc_time a
             then fst (timing_loop sy (length (test_examples w (args.dataset a))) device_list)
             else []),
            if calc_time a
            then (case snd (timing_loop sy (length (test_examples w (args.dataset a))) device_list) of
                    None \<Rightarrow> Completed | Some e \<Rightarrow> Raised e)
            else Completed)"
    using assms(1,2) by (simp add: main_def tr)
  have mem: "SaveModel (save_path sy a) \<in> set (fst (main sy w cl))"
    by (simp add: m)
  from m mem parsed_save_model save_path_on_drive [of sy a] save_path_outside_savedir [of sy a]
  show ?thesis by (simp add: save_path_def filename_def)
qed

theorem checkpoint_written_after_training_witness:
  "main \<lparr>cuda_available = False, timestamp = 0, sep = ''/''\<rparr> toy_world
     \<lparr>opt_batch_size = None, opt_test_batch_size = None, opt_epochs = Some 2, opt_lr = None,
      opt_gamma = None, flag_no_cuda = False, flag_dry_run = False, opt_log_interval = None,
      flag_save_model = False, opt_dataset = Some 1, flag_model = False,
      flag_calc_time = False\<rparr> =
   ([MakeDir ''experiments/0'', LoggingConfig ''experiments/0/train.log'', LogInfo,
     LoadData 1, BuildModel,
     TrainEpoch 1, TestEpoch 1, SchedulerStep 1, TrainEpoch 2, TestEpoch 2, SchedulerStep 2,
     SaveFigure ''experiments/0/perf.png'', MakeDir weights_dir,
     SaveModel (weights_dir @ ''/SHREC_coarse_latest_epoch_2.pt''),
     Print (''Latest model saved to '' @ weights_dir @ ''/SHREC_coarse_latest_epoch_2.pt'')],
    Completed)"
proof -
  let ?sy = "\<lparr>cuda_available = False, timestamp = 0, sep = ''/''\<rparr>"
  let ?cl = "\<lparr>opt_batch_size = None, opt_test_batch_size = None, opt_epochs = Some 2, opt_lr = None,
      opt_gamma = None, flag_no_cuda = False, flag_dry_run = False, opt_log_interval = None,
      flag_save_model = False, opt_dataset = Some 1, flag_model = False,
      flag_calc_time = False\<rparr>"
  let ?a = "\<lparr>batch_size = 64, test_batch_size = 1000, epochs = 2, lr = 1 / 100, gamma = 1 / 2,
        no_cuda = False, dry_run = False, log_interval = 2, save_model = True,
        args.dataset = 1, model = False, calc_time = False\<rparr>"
  have p: "parse_args ?cl = Inr ?a"
    by (simp add: parse_args_def store_true_def with_default_def)
  have h2: "args.dataset ?a = 0 \<or> args.dataset ?a = 1 \<or> args.dataset ?a = 2" by simp
  have h3: "0 < batch_size ?a" and h4: "0 < test_batch_size ?a" and h5: "0 \<le> lr ?a"
    and h6: "gamma ?a < 1" and h7: "log_interval ?a \<noteq> 0" and h8: "1 \<le> epochs ?a"
    by simp_all
  have h9: "test_examples toy_world (args.dataset ?a) \<noteq> []"
    by (simp add: toy_world_def)
  have h10: "\<forall>p. \<forall>x \<in> set (test_examples toy_world (args.dataset ?a)).
               has_scores (network toy_world) p x"
    by (simp add: toy_world_def has_scores_def toy_net_def toy_model_eval_def)
  have e: "[1..2::int] = [1, 2]" by (simp add: upto.simps)
  have sp: "save_path ?sy ?a = weights_dir @ ''/SHREC_coarse_latest_epoch_2.pt''"
    by (simp add: save_path_def filename_def dataset_name_def str_int_def str_nat.simps [of 2])
  from checkpoint_written_after_training [OF p h2 h3 h4 h5 h6 h7 h8 h9 h10, of ?sy]
  have "main ?sy toy_world ?cl =
           (module_level ?sy @ [LogInfo] @ cuda_probe ?sy @ loader_kwargs ?sy ?a @
            [LoadData (args.dataset ?a), BuildModel] @
            concat (map epoch_events [1..epochs ?a]) @
            [SaveFigure (savedir ?sy @ sep ?sy @ ''perf.png''), MakeDir weights_dir,
             SaveModel (save_path ?sy ?a), Print (''Latest model saved to '' @ save_path ?sy ?a)] @
            (if calc_time ?a
             then fst (timing_loop ?sy (length (test_examples toy_world (args.dataset ?a))) device_list)
             else []),
            if calc_time ?a
            then (case snd (timing_loop ?sy (length (test_examples toy_world (args.dataset ?a))) device_list) of
                    None \<Rightarrow> Completed | Some e \<Rightarrow> Raised e)
            else Completed)"
    by blast
  then show ?thesis
    by (simp add: sp e epoch_events_def module_level_def cuda_probe_def loader_kwargs_def
        savedir_def str_int_def str_nat.simps [of 0])
qed

text \<open>
  C10 as stated fails for \<^verbatim>\<open>--epochs 0\<close>: \<^verbatim>\<open>save_model\<close> is True, no epoch runs, the accuracy
  series is empty, \<^verbatim>\<open>np.argmax\<close> at line 257 raises, and the program ends before the
  checkpoint block of line 274: nothing is written.
\<close>

theorem no_epochs_no_checkpoint_counterexample:
  "main \<lparr>cuda_available = False, timestamp = 0, sep = ''/''\<rparr> toy_world
     \<lparr>opt_batch_size = None, opt_test_batch_size = None, opt_epochs = Some 0, opt_lr = None,
      opt_gamma = None, flag_no_cuda = False, flag_dry_run = False, opt_log_interval = None,
      flag_save_model = True, opt_dataset = Some 0, flag_model = False,
      flag_calc_time = False\<rparr> =
   ([MakeDir ''experiments/0'', LoggingConfig ''experiments/0/train.log'', LogInfo,
     LoadData 0, BuildModel], Raised ValueError)"
  by (simp add: main_def parse_args_def store_true_def with_default_def training_run_def
      DataLoader_def Adam_def ReduceLROnPlateau_def after_training_def plot_stage_def
      history_empty_def module_level_def cuda_probe_def loader_kwargs_def savedir_def
      str_int_def str_nat.simps [of 0])

end
